theory Spec2Isabelle
  imports Main "HOL-Library.Sublist" "HOL-Library.Product_Lexorder" "HOL-Library.Multiset"
begin

section \<open>Python values and exceptions\<close>

text \<open>
  The functions of \<^verbatim>\<open>espn_tools.py\<close> work on the documents that \<^verbatim>\<open>response.json()\<close>
  returns: dictionaries, lists, strings, numbers, booleans and \<^verbatim>\<open>None\<close>. A dictionary is
  an association list read with \<open>map_of\<close>; its keys are strings, as in every parsed JSON
  object. Strings are lists of (8-bit) characters; numbers are integers, and no function
  below looks at the value of a number.
\<close>

datatype json =
    JNull
  | JBool bool
  | JNum int
  | JStr string
  | JArr "json list"
  | JObj "(string \<times> json) list"

text \<open>
  The exceptions the code can meet. \<open>RequestException m\<close> stands for every exception of
  the class \<^verbatim>\<open>requests.exceptions.RequestException\<close> (connection errors, \<^verbatim>\<open>HTTPError\<close>,
  the decode error of \<^verbatim>\<open>response.json()\<close>); \<open>m\<close> is its text \<^verbatim>\<open>str(e)\<close>.
\<close>

datatype py_exn =
    KeyError
  | TypeError
  | IndexError
  | ValueError
  | AttributeError
  | RequestException string

text \<open>Sequencing of steps that may raise: the first exception ends the computation.\<close>

definition and_then :: "py_exn + 'a \<Rightarrow> ('a \<Rightarrow> py_exn + 'b) \<Rightarrow> py_exn + 'b" where
  "and_then r f = (case r of Inl e \<Rightarrow> Inl e | Inr v \<Rightarrow> f v)"

text \<open>\<^verbatim>\<open>obj[key]\<close> with a string key.\<close>

fun getitem :: "json \<Rightarrow> string \<Rightarrow> py_exn + json" where
  "getitem (JObj kvs) k = (case map_of kvs k of None \<Rightarrow> Inl KeyError | Some v \<Rightarrow> Inr v)"
| "getitem _ k = Inl TypeError"

text \<open>\<^verbatim>\<open>obj[0]\<close>. A dictionary has string keys only, so the key \<^verbatim>\<open>0\<close> is never present.\<close>

fun getitem0 :: "json \<Rightarrow> py_exn + json" where
  "getitem0 (JArr []) = Inl IndexError"
| "getitem0 (JArr (x # xs)) = Inr x"
| "getitem0 (JStr []) = Inl IndexError"
| "getitem0 (JStr (c # cs)) = Inr (JStr [c])"
| "getitem0 (JObj kvs) = Inl KeyError"
| "getitem0 _ = Inl TypeError"

text \<open>
  \<^verbatim>\<open>key in obj\<close> with a string key: key membership for a dictionary, element membership
  for a list, substring test for a string, \<^verbatim>\<open>TypeError\<close> for everything else.
\<close>

fun contains :: "string \<Rightarrow> json \<Rightarrow> py_exn + bool" where
  "contains k (JObj kvs) = Inr (map_of kvs k \<noteq> None)"
| "contains k (JArr xs) = Inr (JStr k \<in> set xs)"
| "contains k (JStr s) = Inr (sublist k s)"
| "contains k _ = Inl TypeError"

text \<open>\<^verbatim>\<open>obj.get(key, default)\<close>: only dictionaries have the method.\<close>

fun dict_get :: "json \<Rightarrow> string \<Rightarrow> json \<Rightarrow> py_exn + json" where
  "dict_get (JObj kvs) k d = Inr (case map_of kvs k of None \<Rightarrow> d | Some v \<Rightarrow> v)"
| "dict_get _ k d = Inl AttributeError"

text \<open>
  The elements a \<^verbatim>\<open>for\<close> loop visits: the elements of a list, the keys of a dictionary,
  the one-character strings of a string.
\<close>

fun iterate :: "json \<Rightarrow> py_exn + json list" where
  "iterate (JArr xs) = Inr xs"
| "iterate (JObj kvs) = Inr (map (\<lambda>kv. JStr (fst kv)) kvs)"
| "iterate (JStr s) = Inr (map (\<lambda>c. JStr [c]) s)"
| "iterate _ = Inl TypeError"

text \<open>
  \<^verbatim>\<open>str.lower()\<close>: the letters \<^verbatim>\<open>A\<close> to \<^verbatim>\<open>Z\<close> become \<^verbatim>\<open>a\<close> to \<^verbatim>\<open>z\<close>. Python also lowers the letters
  outside ASCII; here a character is a byte and those are left as they are. On a value
  that is no string the method is missing (\<^verbatim>\<open>AttributeError\<close>).
\<close>

definition lower_char :: "char \<Rightarrow> char" where
  "lower_char c =
     (if 65 \<le> (of_char c :: nat) \<and> (of_char c :: nat) \<le> 90
      then char_of (of_char c + 32 :: nat) else c)"

definition lower :: "string \<Rightarrow> string" where
  "lower s = map lower_char s"

fun str_lower :: "json \<Rightarrow> py_exn + string" where
  "str_lower (JStr s) = Inr (lower s)"
| "str_lower _ = Inl AttributeError"

section \<open>The HTTP client\<close>

text \<open>
  A request is the URL of the source's f-string: the text before the interpolated
  identifier, the identifier, the text after it. A team identifier is a string, as the
  source annotates it (\<^verbatim>\<open>team_id: str\<close>); a game identifier is whatever the schedule
  holds under \<^verbatim>\<open>id\<close>. The network is a parameter: it answers a request, and the answer may
  depend on the requests made before (the history), so that the same URL can succeed once
  and fail later.
\<close>

datatype request = Get string json string

record response =
  status_code :: nat
  reason :: string
  url :: string
  body :: "string + json"

text \<open>
  \<open>NoResponse m\<close>: \<^verbatim>\<open>requests.get\<close> raises a \<^verbatim>\<open>RequestException\<close> with text \<open>m\<close> (no
  connection, timeout, ...). The \<open>body\<close> of a response is the parsed document, or
  \<open>Inl m\<close> when the text received is no JSON and \<^verbatim>\<open>response.json()\<close> raises the decode
  error of \<^verbatim>\<open>requests\<close> with text \<open>m\<close>.
\<close>

datatype reply = NoResponse string | Reply response

type_synonym network = "request list \<Rightarrow> request \<Rightarrow> reply"

definition requests_get :: "network \<Rightarrow> request list \<Rightarrow> request \<Rightarrow> py_exn + response" where
  "requests_get net tr u =
     (case net tr u of NoResponse m \<Rightarrow> Inl (RequestException m) | Reply r \<Rightarrow> Inr r)"

fun show_nat :: "nat \<Rightarrow> string" where
  "show_nat n =
     (if n < 10 then [char_of (48 + n)]
      else show_nat (n div 10) @ [char_of (48 + n mod 10)])"

declare show_nat.simps [simp del]

text \<open>\<^verbatim>\<open>response.raise_for_status()\<close>: the statuses 400 to 599 raise \<^verbatim>\<open>HTTPError\<close>.\<close>

definition http_error_msg :: "response \<Rightarrow> string" where
  "http_error_msg r =
     show_nat (status_code r)
     @ (if status_code r < 500 then '' Client Error: '' else '' Server Error: '')
     @ reason r @ '' for url: '' @ url r"

definition raise_for_status :: "response \<Rightarrow> py_exn + unit" where
  "raise_for_status r =
     (if 400 \<le> status_code r \<and> status_code r < 600
      then Inl (RequestException (http_error_msg r)) else Inr ())"

definition response_json :: "response \<Rightarrow> py_exn + json" where
  "response_json r = (case body r of Inl m \<Rightarrow> Inl (RequestException m) | Inr d \<Rightarrow> Inr d)"

text \<open>
  \<^verbatim>\<open>try: ... except requests.exceptions.RequestException as e: return {"error": str(e)}\<close>:
  a \<^verbatim>\<open>RequestException\<close> becomes the returned dictionary, every other exception goes on
  to the caller.
\<close>

definition error_dict :: "string \<Rightarrow> json" where
  "error_dict m = JObj [(''error'', JStr m)]"

fun except_RequestException :: "py_exn + json \<Rightarrow> py_exn + json" where
  "except_RequestException (Inl (RequestException m)) = Inr (error_dict m)"
| "except_RequestException r = r"

section \<open>Team identifiers\<close>

definition TEAM_IDS :: "(string \<times> int) list" where
  "TEAM_IDS =
    [(''ARI'', 22), (''ATL'', 1), (''BAL'', 33), (''BUF'', 2), (''CAR'', 29), (''CHI'', 3),
     (''CIN'', 4), (''CLE'', 5), (''DAL'', 6), (''DEN'', 7), (''DET'', 8), (''GB'', 9),
     (''HOU'', 34), (''IND'', 11), (''JAX'', 30), (''KC'', 12), (''LV'', 13), (''LAC'', 24),
     (''LAR'', 14), (''MIA'', 15), (''MIN'', 16), (''NE'', 17), (''NO'', 18), (''NYG'', 19),
     (''NYJ'', 20), (''PHI'', 21), (''PIT'', 23), (''SF'', 25), (''SEA'', 26), (''TB'', 27),
     (''TEN'', 10), (''WAS'', 28)]"

text \<open>\<^verbatim>\<open>TEAM_IDS.get(team_abbreviation)\<close>: \<open>None\<close> is Python's \<^verbatim>\<open>None\<close>.\<close>

definition get_team_id :: "string \<Rightarrow> int option" where
  "get_team_id team_abbreviation = map_of TEAM_IDS team_abbreviation"

section \<open>Rosters and players\<close>

definition roster_url :: "string \<Rightarrow> request" where
  "roster_url team_id =
     Get ''https://site.api.espn.com/apis/site/v2/sports/football/nfl/teams/'' (JStr team_id)
       ''/roster''"

text \<open>The items of one position category: \<^verbatim>\<open>category.get('items', [])\<close>, iterated.\<close>

definition category_items :: "json \<Rightarrow> py_exn + json list" where
  "category_items category = and_then (dict_get category ''items'' (JArr [])) iterate"

fun collect_items :: "json list \<Rightarrow> py_exn + json list" where
  "collect_items [] = Inr []"
| "collect_items (category # rest) =
     and_then (category_items category) (\<lambda>items.
     and_then (collect_items rest) (\<lambda>more. Inr (items @ more)))"

text \<open>
  \<open>get_team_players\<close> has no \<^verbatim>\<open>try\<close> and does not look at the status: every exception
  reaches the caller. The second component is the history with the request added.
\<close>

definition get_team_players ::
  "network \<Rightarrow> request list \<Rightarrow> string \<Rightarrow> (py_exn + json list) \<times> request list" where
  "get_team_players net tr team_id =
     (and_then (requests_get net tr (roster_url team_id)) (\<lambda>response.
      and_then (response_json response) (\<lambda>data.
      and_then (dict_get data ''athletes'' (JArr [])) (\<lambda>position_categories.
      and_then (iterate position_categories) collect_items))),
      tr @ [roster_url team_id])"

text \<open>
  \<open>get_player_id\<close>: the first player whose display name equals the name, both in lower
  case; \<open>JNull\<close> (\<^verbatim>\<open>None\<close>) when the loop ends without a \<^verbatim>\<open>return\<close>.
\<close>

fun get_player_id :: "string \<Rightarrow> json list \<Rightarrow> py_exn + json" where
  "get_player_id player_name [] = Inr JNull"
| "get_player_id player_name (player # team_players) =
     and_then (getitem player ''displayName'') (\<lambda>display_name.
     and_then (str_lower display_name) (\<lambda>l.
       if l = lower player_name then getitem player ''id''
       else get_player_id player_name team_players))"

section \<open>Team statistics\<close>

definition team_stats_url :: "string \<Rightarrow> request" where
  "team_stats_url team_id =
     Get ''https://site.api.espn.com/apis/site/v2/sports/football/nfl/teams/'' (JStr team_id)
       ''/statistics''"

definition get_nfl_team_stats ::
  "network \<Rightarrow> request list \<Rightarrow> string \<Rightarrow> (py_exn + json) \<times> request list" where
  "get_nfl_team_stats net tr team_id =
     (except_RequestException
        (and_then (requests_get net tr (team_stats_url team_id)) (\<lambda>response.
         and_then (raise_for_status response) (\<lambda>_.
         and_then (response_json response) (\<lambda>data.
         and_then (contains ''team'' data) (\<lambda>present.
           if present then getitem data ''team''
           else Inr (error_dict ''Team stats not found'')))))),
      tr @ [team_stats_url team_id])"

section \<open>Dates\<close>

text \<open>
  A \<^verbatim>\<open>datetime\<close> read with minute precision: year, month, day, hour, minute, compared in
  this order. The digits of a date are the ASCII digits.
\<close>

type_synonym datetime = "nat \<times> nat \<times> nat \<times> nat \<times> nat"

definition is_digit :: "char \<Rightarrow> bool" where
  "is_digit c = (48 \<le> (of_char c :: nat) \<and> (of_char c :: nat) \<le> 57)"

definition digit_val :: "char \<Rightarrow> nat" where
  "digit_val c = of_char c - 48"

definition in_range :: "char \<Rightarrow> char \<Rightarrow> char \<Rightarrow> bool" where
  "in_range lo hi c = ((of_char lo :: nat) \<le> of_char c \<and> (of_char c :: nat) \<le> of_char hi)"

text \<open>
  The fields of \<^verbatim>\<open>strptime\<close>, as the regular expressions of the standard library have
  them: \<^verbatim>\<open>%Y\<close> is four digits, \<^verbatim>\<open>%m\<close> is \<^verbatim>\<open>1[0-2]|0[1-9]|[1-9]\<close>, \<^verbatim>\<open>%d\<close> is
  \<^verbatim>\<open>3[0-1]|[1-2]\d|0[1-9]|[1-9]| [1-9]\<close>, \<^verbatim>\<open>%H\<close> is \<^verbatim>\<open>2[0-3]|[0-1]\d|\d\<close>, \<^verbatim>\<open>%M\<close> is
  \<^verbatim>\<open>[0-5]\d|\d\<close>.
\<close>

fun year_field :: "string \<Rightarrow> nat option" where
  "year_field [a, b, c, d] =
     (if is_digit a \<and> is_digit b \<and> is_digit c \<and> is_digit d
      then Some (1000 * digit_val a + 100 * digit_val b + 10 * digit_val c + digit_val d)
      else None)"
| "year_field _ = None"

fun month_field :: "string \<Rightarrow> nat option" where
  "month_field [a] = (if in_range (CHR ''1'') (CHR ''9'') a then Some (digit_val a) else None)"
| "month_field [a, b] =
     (if a = CHR ''1'' \<and> in_range (CHR ''0'') (CHR ''2'') b then Some (10 + digit_val b)
      else if a = CHR ''0'' \<and> in_range (CHR ''1'') (CHR ''9'') b then Some (digit_val b)
      else None)"
| "month_field _ = None"

fun day_field :: "string \<Rightarrow> nat option" where
  "day_field [a] = (if in_range (CHR ''1'') (CHR ''9'') a then Some (digit_val a) else None)"
| "day_field [a, b] =
     (if a = CHR ''3'' \<and> in_range (CHR ''0'') (CHR ''1'') b then Some (30 + digit_val b)
      else if in_range (CHR ''1'') (CHR ''2'') a \<and> is_digit b
        then Some (10 * digit_val a + digit_val b)
      else if (a = CHR ''0'' \<or> a = CHR '' '') \<and> in_range (CHR ''1'') (CHR ''9'') b
        then Some (digit_val b)
      else None)"
| "day_field _ = None"

fun hour_field :: "string \<Rightarrow> nat option" where
  "hour_field [a] = (if is_digit a then Some (digit_val a) else None)"
| "hour_field [a, b] =
     (if a = CHR ''2'' \<and> in_range (CHR ''0'') (CHR ''3'') b then Some (20 + digit_val b)
      else if in_range (CHR ''0'') (CHR ''1'') a \<and> is_digit b
        then Some (10 * digit_val a + digit_val b)
      else None)"
| "hour_field _ = None"

fun minute_field :: "string \<Rightarrow> nat option" where
  "minute_field [a] = (if is_digit a then Some (digit_val a) else None)"
| "minute_field [a, b] =
     (if in_range (CHR ''0'') (CHR ''5'') a \<and> is_digit b
      then Some (10 * digit_val a + digit_val b)
      else None)"
| "minute_field _ = None"

text \<open>
  \<open>split_at seps s\<close>: the text before the first separator and the text after it. The
  letters of the format match in either case (the expression is compiled with
  \<^verbatim>\<open>IGNORECASE\<close>).
\<close>

definition split_at :: "char list \<Rightarrow> string \<Rightarrow> (string \<times> string) option" where
  "split_at seps s =
     (case dropWhile (\<lambda>c. c \<notin> set seps) s of
        [] \<Rightarrow> None
      | c # rest \<Rightarrow> Some (takeWhile (\<lambda>c. c \<notin> set seps) s, rest))"

definition leap_year :: "nat \<Rightarrow> bool" where
  "leap_year y = (y mod 4 = 0 \<and> (y mod 100 \<noteq> 0 \<or> y mod 400 = 0))"

definition days_in_month :: "nat \<Rightarrow> nat \<Rightarrow> nat" where
  "days_in_month y m =
     (if m = 2 then (if leap_year y then 29 else 28)
      else if m = 4 \<or> m = 6 \<or> m = 9 \<or> m = 11 then 30 else 31)"

text \<open>
  \<^verbatim>\<open>datetime.strptime(s, "%Y-%m-%dT%H:%MZ")\<close> on a string: \<^verbatim>\<open>ValueError\<close> when the text
  does not match the format, when text is left over, or when the date does not exist.
\<close>

definition date_of_fields ::
  "string \<Rightarrow> string \<Rightarrow> string \<Rightarrow> string \<Rightarrow> string \<Rightarrow> datetime option" where
  "date_of_fields ys ms ds hs mins =
     (case year_field ys of None \<Rightarrow> None | Some y \<Rightarrow>
     (case month_field ms of None \<Rightarrow> None | Some m \<Rightarrow>
     (case day_field ds of None \<Rightarrow> None | Some d \<Rightarrow>
     (case hour_field hs of None \<Rightarrow> None | Some h \<Rightarrow>
     (case minute_field mins of None \<Rightarrow> None | Some mi \<Rightarrow>
        if 1 \<le> y \<and> d \<le> days_in_month y m then Some (y, m, d, h, mi) else None)))))"

definition parse_date :: "string \<Rightarrow> datetime option" where
  "parse_date s =
     (case split_at [CHR ''-''] s of None \<Rightarrow> None | Some (ys, s1) \<Rightarrow>
     (case split_at [CHR ''-''] s1 of None \<Rightarrow> None | Some (ms, s2) \<Rightarrow>
     (case split_at [CHR ''T'', CHR ''t''] s2 of None \<Rightarrow> None | Some (ds, s3) \<Rightarrow>
     (case split_at [CHR '':''] s3 of None \<Rightarrow> None | Some (hs, s4) \<Rightarrow>
     (case split_at [CHR ''Z'', CHR ''z''] s4 of None \<Rightarrow> None | Some (mins, s5) \<Rightarrow>
        if s5 \<noteq> [] then None else date_of_fields ys ms ds hs mins)))))"

fun strptime :: "json \<Rightarrow> py_exn + datetime" where
  "strptime (JStr s) = (case parse_date s of None \<Rightarrow> Inl ValueError | Some d \<Rightarrow> Inr d)"
| "strptime _ = Inl TypeError"

section \<open>Recent games\<close>

definition schedule_url :: "string \<Rightarrow> request" where
  "schedule_url team_id =
     Get ''https://site.api.espn.com/apis/site/v2/sports/football/nfl/teams/'' (JStr team_id)
       ''/schedule''"

definition game_stats_url :: "json \<Rightarrow> request" where
  "game_stats_url game_id =
     Get ''https://site.api.espn.com/apis/site/v2/sports/football/nfl/summary?event='' game_id
       ''''"

text \<open>An entry of \<^verbatim>\<open>recent_games\<close>: the dictionary with the keys \<^verbatim>\<open>game_id\<close> and \<^verbatim>\<open>date\<close>.\<close>

record recent_game =
  game_id :: json
  date :: datetime

text \<open>\<^verbatim>\<open>event['competitions'][0]\<close>\<close>

definition event_game :: "json \<Rightarrow> py_exn + json" where
  "event_game event = and_then (getitem event ''competitions'') getitem0"

text \<open>
  The test \<^verbatim>\<open>'status' in game and game['status']['type']['name'] == 'STATUS_FINAL'\<close>;
  the right operand is evaluated only when the left one is true.
\<close>

definition is_completed :: "json \<Rightarrow> py_exn + bool" where
  "is_completed game =
     and_then (contains ''status'' game) (\<lambda>present.
       if present then
         and_then (getitem game ''status'') (\<lambda>status.
         and_then (getitem status ''type'') (\<lambda>type.
         and_then (getitem type ''name'') (\<lambda>name. Inr (name = JStr ''STATUS_FINAL''))))
       else Inr False)"

text \<open>Step 2, the loop over the events; \<open>acc\<close> is \<^verbatim>\<open>recent_games\<close> so far.\<close>

fun completed_games :: "json list \<Rightarrow> recent_game list \<Rightarrow> py_exn + recent_game list" where
  "completed_games [] acc = Inr acc"
| "completed_games (event # events) acc =
     and_then (event_game event) (\<lambda>game.
     and_then (is_completed game) (\<lambda>completed.
       if completed then
         and_then (getitem game ''date'') (\<lambda>d.
         and_then (strptime d) (\<lambda>game_date.
         and_then (getitem game ''id'') (\<lambda>i.
           completed_games events (acc @ [\<lparr>game_id = i, date = game_date\<rparr>]))))
       else completed_games events acc))"

definition find_recent_games :: "json \<Rightarrow> py_exn + recent_game list" where
  "find_recent_games schedule_data =
     and_then (contains ''events'' schedule_data) (\<lambda>present.
       if present then
         and_then (getitem schedule_data ''events'') (\<lambda>events.
         and_then (iterate events) (\<lambda>evs. completed_games evs []))
       else Inr [])"

text \<open>
  \<^verbatim>\<open>sorted(recent_games, key=lambda x: x['date'], reverse=True)\<close>: descending, and stable
  (games with equal dates keep their order).
\<close>

definition sorted_recent :: "recent_game list \<Rightarrow> recent_game list" where
  "sorted_recent gs = rev (sort_key date (rev gs))"

text \<open>\<^verbatim>\<open>xs[:n]\<close>: a negative \<open>n\<close> counts from the end.\<close>

definition slice_to :: "'a list \<Rightarrow> int \<Rightarrow> 'a list" where
  "slice_to xs n =
     (if n < 0 then take (nat (int (length xs) + n)) xs else take (nat n) xs)"

text \<open>Step 3, the loop over the selected games; \<open>acc\<close> is \<^verbatim>\<open>game_stats_list\<close> so far.\<close>

definition fetch_boxscore :: "network \<Rightarrow> request list \<Rightarrow> recent_game \<Rightarrow> py_exn + json" where
  "fetch_boxscore net tr game =
     and_then (requests_get net tr (game_stats_url (game_id game))) (\<lambda>response.
     and_then (raise_for_status response) (\<lambda>_.
     and_then (response_json response) (\<lambda>data. getitem data ''boxscore'')))"

fun fetch_game_stats ::
  "network \<Rightarrow> request list \<Rightarrow> recent_game list \<Rightarrow> json list
     \<Rightarrow> (py_exn + json list) \<times> request list" where
  "fetch_game_stats net tr [] acc = (Inr acc, tr)"
| "fetch_game_stats net tr (game # games) acc =
     (case fetch_boxscore net tr game of
        Inl e \<Rightarrow> (Inl e, tr @ [game_stats_url (game_id game)])
      | Inr b \<Rightarrow> fetch_game_stats net (tr @ [game_stats_url (game_id game)]) games (acc @ [b]))"

text \<open>Steps 1 and 2: the schedule is fetched and \<^verbatim>\<open>recent_games\<close> is built from it.\<close>

definition fetch_recent_games ::
  "network \<Rightarrow> request list \<Rightarrow> string \<Rightarrow> py_exn + recent_game list" where
  "fetch_recent_games net tr team_id =
     and_then (requests_get net tr (schedule_url team_id)) (\<lambda>response.
     and_then (raise_for_status response) (\<lambda>_.
     and_then (response_json response) find_recent_games))"

text \<open>The body of the \<^verbatim>\<open>try\<close>, with the history of requests.\<close>

definition recent_game_stats_body ::
  "network \<Rightarrow> request list \<Rightarrow> string \<Rightarrow> int \<Rightarrow> (py_exn + json) \<times> request list" where
  "recent_game_stats_body net tr team_id num_games =
     (let tr1 = tr @ [schedule_url team_id] in
      case fetch_recent_games net tr team_id of
        Inl e \<Rightarrow> (Inl e, tr1)
      | Inr recent_games \<Rightarrow>
          (case fetch_game_stats net tr1 (slice_to (sorted_recent recent_games) num_games) [] of
             (Inl e, tr2) \<Rightarrow> (Inl e, tr2)
           | (Inr game_stats_list, tr2) \<Rightarrow> (Inr (JArr game_stats_list), tr2)))"

definition get_recent_game_stats ::
  "network \<Rightarrow> request list \<Rightarrow> string \<Rightarrow> int \<Rightarrow> (py_exn + json) \<times> request list" where
  "get_recent_game_stats net tr team_id num_games =
     (case recent_game_stats_body net tr team_id num_games of
        (r, tr') \<Rightarrow> (except_RequestException r, tr'))"

section \<open>Notions of the specification\<close>



text \<open>
  A network failure or a non-success HTTP status, with the text of the exception it
  raises: no response at all, or a response with a status from 400 to 599 (the statuses
  for which \<^verbatim>\<open>response.ok\<close> is false).
\<close>

definition failure_text :: "reply \<Rightarrow> string option" where
  "failure_text rp =
     (case rp of
        NoResponse m \<Rightarrow> Some m
      | Reply r \<Rightarrow>
          if 400 \<le> status_code r \<and> status_code r < 600 then Some (http_error_msg r) else None)"

text \<open>
  The fields of a document, read without exceptions: a field of something that is no
  dictionary, or a missing key, is absent.
\<close>

fun field :: "json \<Rightarrow> string \<Rightarrow> json option" where
  "field (JObj kvs) k = map_of kvs k"
| "field _ k = None"

definition first_competition :: "json \<Rightarrow> json option" where
  "first_competition event =
     (case field event ''competitions'' of Some (JArr (game # games)) \<Rightarrow> Some game | _ \<Rightarrow> None)"

text \<open>The field \<^verbatim>\<open>status.type.name\<close> of a game.\<close>

definition status_type_name :: "json \<Rightarrow> json option" where
  "status_type_name game =
     (case field game ''status'' of None \<Rightarrow> None | Some status \<Rightarrow>
     (case field status ''type'' of None \<Rightarrow> None | Some type \<Rightarrow> field type ''name''))"

text \<open>An event is final when the status type name of its game is the literal \<^verbatim>\<open>STATUS_FINAL\<close>.\<close>

definition final_event :: "json \<Rightarrow> bool" where
  "final_event event =
     (case first_competition event of
        None \<Rightarrow> False
      | Some game \<Rightarrow> status_type_name game = Some (JStr ''STATUS_FINAL''))"

text \<open>The entry of \<^verbatim>\<open>recent_games\<close> that belongs to an event: the identifier and the date of its game.\<close>

definition entry_of :: "json \<Rightarrow> recent_game option" where
  "entry_of event =
     (case first_competition event of None \<Rightarrow> None | Some game \<Rightarrow>
     (case field game ''id'' of None \<Rightarrow> None | Some i \<Rightarrow>
     (case field game ''date'' of
        Some (JStr s) \<Rightarrow>
          (case parse_date s of None \<Rightarrow> None | Some d \<Rightarrow> Some \<lparr>game_id = i, date = d\<rparr>)
      | _ \<Rightarrow> None)))"

text \<open>The events of a schedule document: the elements of its list \<^verbatim>\<open>events\<close>.\<close>

definition schedule_events :: "json \<Rightarrow> json list" where
  "schedule_events data = (case field data ''events'' of Some (JArr evs) \<Rightarrow> evs | _ \<Rightarrow> [])"




text \<open>
  An event that is not final: its game has a status type name, and the name is not the
  literal \<^verbatim>\<open>STATUS_FINAL\<close> (a scheduled game, a game in progress).
\<close>

definition other_status :: "json \<Rightarrow> bool" where
  "other_status event =
     (case first_competition event of
        None \<Rightarrow> False
      | Some game \<Rightarrow>
          (case status_type_name game of
             None \<Rightarrow> False
           | Some v \<Rightarrow> v \<noteq> JStr ''STATUS_FINAL''))"

section \<open>Example inputs\<close>

definition example_roster :: "json list" where
  "example_roster =
     [JObj [(''id'', JStr ''4361741''), (''displayName'', JStr ''Isiah Pacheco'')],
      JObj [(''id'', JStr ''3139477''), (''displayName'', JStr ''Patrick Mahomes'')],
      JObj [(''id'', JStr ''15847''), (''displayName'', JStr ''Travis Kelce'')]]"

text \<open>
  An event with one competition, and a schedule of four events: three finished games and
  one that is only scheduled.
\<close>

definition example_event :: "string \<Rightarrow> string \<Rightarrow> string \<Rightarrow> json" where
  "example_event i d st =
     JObj [(''id'', JStr i),
           (''competitions'',
              JArr [JObj [(''id'', JStr i), (''date'', JStr d),
                          (''status'', JObj [(''type'', JObj [(''name'', JStr st)])])]])]"

definition example_schedule :: json where
  "example_schedule =
     JObj [(''events'',
        JArr [example_event ''401'' ''2024-01-01T18:00Z'' ''STATUS_FINAL'',
              example_event ''402'' ''2024-01-08T18:00Z'' ''STATUS_FINAL'',
              example_event ''403'' ''2024-01-15T21:25Z'' ''STATUS_FINAL'',
              example_event ''404'' ''2024-01-22T18:00Z'' ''STATUS_SCHEDULED''])]"

definition ok_response :: "json \<Rightarrow> response" where
  "ok_response d = \<lparr>status_code = 200, reason = ''OK'', url = '''', body = Inr d\<rparr>"

definition example_boxscore :: "json \<Rightarrow> json" where
  "example_boxscore i = JObj [(''game'', i), (''teams'', JArr [])]"

text \<open>A network that serves the schedule of team 12 and a summary for every game.\<close>

definition example_network :: network where
  "example_network tr u =
     (if u = schedule_url ''12'' then Reply (ok_response example_schedule)
      else case u of Get p i s \<Rightarrow>
        Reply (ok_response (JObj [(''boxscore'', example_boxscore i), (''header'', JNull)])))"







text \<open>An event whose game has no \<^verbatim>\<open>status\<close> field.\<close>

definition event_without_status :: json where
  "event_without_status =
     JObj [(''id'', JStr ''405''),
           (''competitions'', JArr [JObj [(''id'', JStr ''405''), (''date'', JStr ''TBD'')]])]"

text \<open>A network that answers every request with an object that has none of the named fields.\<close>

definition bare_document :: "(string \<times> json) list" where
  "bare_document = [(''message'', JStr ''no data'')]"

definition bare_network :: network where
  "bare_network tr u = Reply (ok_response (JObj bare_document))"

text \<open>A schedule whose first event has no \<^verbatim>\<open>competitions\<close>.\<close>

definition no_competitions_schedule :: "(string \<times> json) list" where
  "no_competitions_schedule =
     [(''events'',
       JArr [JObj [(''id'', JStr ''400'')],
             example_event ''401'' ''2024-01-01T18:00Z'' ''STATUS_FINAL''])]"

definition no_competitions_network :: network where
  "no_competitions_network tr u = Reply (ok_response (JObj no_competitions_schedule))"

text \<open>An event with one game, given by the fields of the game.\<close>

definition event_of_game :: "(string \<times> json) list \<Rightarrow> json" where
  "event_of_game kvs = JObj [(''competitions'', JArr [JObj kvs])]"

section \<open>The table of team identifiers\<close>

lemma team_ids_length: "length TEAM_IDS = 32"
  by (simp add: TEAM_IDS_def)

lemma team_ids_distinct: "distinct (map fst TEAM_IDS)"
  by (simp add: TEAM_IDS_def)

lemma team_ids_a: "get_team_id ''ARI'' = Some 22 \<and> get_team_id ''ATL'' = Some 1 \<and>
   get_team_id ''BAL'' = Some 33 \<and> get_team_id ''BUF'' = Some 2 \<and>
   get_team_id ''CAR'' = Some 29 \<and> get_team_id ''CHI'' = Some 3 \<and>
   get_team_id ''CIN'' = Some 4 \<and> get_team_id ''CLE'' = Some 5"
  by (simp add: TEAM_IDS_def get_team_id_def)

lemma team_ids_b: "get_team_id ''DAL'' = Some 6 \<and> get_team_id ''DEN'' = Some 7 \<and>
   get_team_id ''DET'' = Some 8 \<and> get_team_id ''GB'' = Some 9 \<and>
   get_team_id ''HOU'' = Some 34 \<and> get_team_id ''IND'' = Some 11 \<and>
   get_team_id ''JAX'' = Some 30 \<and> get_team_id ''KC'' = Some 12"
  by (simp add: TEAM_IDS_def get_team_id_def)

lemma team_ids_c: "get_team_id ''LV'' = Some 13 \<and> get_team_id ''LAC'' = Some 24 \<and>
   get_team_id ''LAR'' = Some 14 \<and> get_team_id ''MIA'' = Some 15 \<and>
   get_team_id ''MIN'' = Some 16 \<and> get_team_id ''NE'' = Some 17 \<and>
   get_team_id ''NO'' = Some 18 \<and> get_team_id ''NYG'' = Some 19"
  by (simp add: TEAM_IDS_def get_team_id_def)

lemma team_ids_d: "get_team_id ''NYJ'' = Some 20 \<and> get_team_id ''PHI'' = Some 21 \<and>
   get_team_id ''PIT'' = Some 23 \<and> get_team_id ''SF'' = Some 25 \<and>
   get_team_id ''SEA'' = Some 26 \<and> get_team_id ''TB'' = Some 27 \<and>
   get_team_id ''TEN'' = Some 10 \<and> get_team_id ''WAS'' = Some 28"
  by (simp add: TEAM_IDS_def get_team_id_def)

lemma team_ids_unknown:
  "s \<notin> {''ARI'', ''ATL'', ''BAL'', ''BUF'', ''CAR'', ''CHI'', ''CIN'', ''CLE'',
                ''DAL'', ''DEN'', ''DET'', ''GB'', ''HOU'', ''IND'', ''JAX'', ''KC'',
                ''LV'', ''LAC'', ''LAR'', ''MIA'', ''MIN'', ''NE'', ''NO'', ''NYG'',
                ''NYJ'', ''PHI'', ''PIT'', ''SF'', ''SEA'', ''TB'', ''TEN'', ''WAS''}
   \<Longrightarrow> get_team_id s = None"
proof -
  assume a: "s \<notin> {''ARI'', ''ATL'', ''BAL'', ''BUF'', ''CAR'', ''CHI'', ''CIN'', ''CLE'',
                ''DAL'', ''DEN'', ''DET'', ''GB'', ''HOU'', ''IND'', ''JAX'', ''KC'',
                ''LV'', ''LAC'', ''LAR'', ''MIA'', ''MIN'', ''NE'', ''NO'', ''NYG'',
                ''NYJ'', ''PHI'', ''PIT'', ''SF'', ''SEA'', ''TB'', ''TEN'', ''WAS''}"
  have eq: "fst ` set TEAM_IDS = {''ARI'', ''ATL'', ''BAL'', ''BUF'', ''CAR'', ''CHI'', ''CIN'', ''CLE'',
                ''DAL'', ''DEN'', ''DET'', ''GB'', ''HOU'', ''IND'', ''JAX'', ''KC'',
                ''LV'', ''LAC'', ''LAR'', ''MIA'', ''MIN'', ''NE'', ''NO'', ''NYG'',
                ''NYJ'', ''PHI'', ''PIT'', ''SF'', ''SEA'', ''TB'', ''TEN'', ''WAS''}"
    unfolding TEAM_IDS_def list.set image_insert fst_conv image_empty ..
  have "s \<notin> fst ` set TEAM_IDS"
    unfolding eq by (rule a)
  then show ?thesis
    by (simp add: get_team_id_def map_of_eq_None_iff)
qed

text \<open>
  Claim C8. \<open>get_team_id\<close> is a fixed table of 32 entries: each of the 32 known
  abbreviations gives its identifier (\<^verbatim>\<open>ARI\<close> gives 22, \<^verbatim>\<open>ATL\<close> gives 1, ..., \<^verbatim>\<open>WAS\<close>
  gives 28), and every other string gives \<^verbatim>\<open>None\<close>; no input raises.
\<close>

theorem get_team_id_table:
  "length TEAM_IDS = 32 \<and> distinct (map fst TEAM_IDS) \<and>
   get_team_id ''ARI'' = Some 22 \<and> get_team_id ''ATL'' = Some 1 \<and>
   get_team_id ''BAL'' = Some 33 \<and> get_team_id ''BUF'' = Some 2 \<and>
   get_team_id ''CAR'' = Some 29 \<and> get_team_id ''CHI'' = Some 3 \<and>
   get_team_id ''CIN'' = Some 4 \<and> get_team_id ''CLE'' = Some 5 \<and>
   get_team_id ''DAL'' = Some 6 \<and> get_team_id ''DEN'' = Some 7 \<and>
   get_team_id ''DET'' = Some 8 \<and> get_team_id ''GB'' = Some 9 \<and>
   get_team_id ''HOU'' = Some 34 \<and> get_team_id ''IND'' = Some 11 \<and>
   get_team_id ''JAX'' = Some 30 \<and> get_team_id ''KC'' = Some 12 \<and>
   get_team_id ''LV'' = Some 13 \<and> get_team_id ''LAC'' = Some 24 \<and>
   get_team_id ''LAR'' = Some 14 \<and> get_team_id ''MIA'' = Some 15 \<and>
   get_team_id ''MIN'' = Some 16 \<and> get_team_id ''NE'' = Some 17 \<and>
   get_team_id ''NO'' = Some 18 \<and> get_team_id ''NYG'' = Some 19 \<and>
   get_team_id ''NYJ'' = Some 20 \<and> get_team_id ''PHI'' = Some 21 \<and>
   get_team_id ''PIT'' = Some 23 \<and> get_team_id ''SF'' = Some 25 \<and>
   get_team_id ''SEA'' = Some 26 \<and> get_team_id ''TB'' = Some 27 \<and>
   get_team_id ''TEN'' = Some 10 \<and> get_team_id ''WAS'' = Some 28 \<and>
   (\<forall>s. s \<notin> {''ARI'', ''ATL'', ''BAL'', ''BUF'', ''CAR'', ''CHI'', ''CIN'', ''CLE'',
                ''DAL'', ''DEN'', ''DET'', ''GB'', ''HOU'', ''IND'', ''JAX'', ''KC'',
                ''LV'', ''LAC'', ''LAR'', ''MIA'', ''MIN'', ''NE'', ''NO'', ''NYG'',
                ''NYJ'', ''PHI'', ''PIT'', ''SF'', ''SEA'', ''TB'', ''TEN'', ''WAS''}
        \<longrightarrow> get_team_id s = None)"
  using team_ids_length team_ids_distinct team_ids_a team_ids_b team_ids_c team_ids_d
    team_ids_unknown
  by (intro conjI allI impI) (simp_all only:)

theorem get_team_id_table_witness:
  "''XYZ'' \<notin> {''ARI'', ''ATL'', ''BAL'', ''BUF'', ''CAR'', ''CHI'', ''CIN'', ''CLE'',
                ''DAL'', ''DEN'', ''DET'', ''GB'', ''HOU'', ''IND'', ''JAX'', ''KC'',
                ''LV'', ''LAC'', ''LAR'', ''MIA'', ''MIN'', ''NE'', ''NO'', ''NYG'',
                ''NYJ'', ''PHI'', ''PIT'', ''SF'', ''SEA'', ''TB'', ''TEN'', ''WAS''}
   \<and> get_team_id ''XYZ'' = None"
proof -
  have h: "''XYZ'' \<notin> {''ARI'', ''ATL'', ''BAL'', ''BUF'', ''CAR'', ''CHI'', ''CIN'', ''CLE'',
                ''DAL'', ''DEN'', ''DET'', ''GB'', ''HOU'', ''IND'', ''JAX'', ''KC'',
                ''LV'', ''LAC'', ''LAR'', ''MIA'', ''MIN'', ''NE'', ''NO'', ''NYG'',
                ''NYJ'', ''PHI'', ''PIT'', ''SF'', ''SEA'', ''TB'', ''TEN'', ''WAS''}"
    by simp
  have "\<forall>s. s \<notin> {''ARI'', ''ATL'', ''BAL'', ''BUF'', ''CAR'', ''CHI'', ''CIN'', ''CLE'',
                ''DAL'', ''DEN'', ''DET'', ''GB'', ''HOU'', ''IND'', ''JAX'', ''KC'',
                ''LV'', ''LAC'', ''LAR'', ''MIA'', ''MIN'', ''NE'', ''NO'', ''NYG'',
                ''NYJ'', ''PHI'', ''PIT'', ''SF'', ''SEA'', ''TB'', ''TEN'', ''WAS''}
        \<longrightarrow> get_team_id s = None"
    using get_team_id_table by (elim conjE)
  then have "''XYZ'' \<notin> {''ARI'', ''ATL'', ''BAL'', ''BUF'', ''CAR'', ''CHI'', ''CIN'', ''CLE'',
                ''DAL'', ''DEN'', ''DET'', ''GB'', ''HOU'', ''IND'', ''JAX'', ''KC'',
                ''LV'', ''LAC'', ''LAR'', ''MIA'', ''MIN'', ''NE'', ''NO'', ''NYG'',
                ''NYJ'', ''PHI'', ''PIT'', ''SF'', ''SEA'', ''TB'', ''TEN'', ''WAS''}
        \<longrightarrow> get_team_id ''XYZ'' = None" by (rule spec)
  then have "get_team_id ''XYZ'' = None" using h by (rule mp)
  with h show ?thesis by (rule conjI)
qed

section \<open>Sequencing\<close>

lemma and_then_Inl [simp]: "and_then (Inl e) f = Inl e"
  by (simp add: and_then_def)

lemma and_then_Inr [simp]: "and_then (Inr v) f = f v"
  by (simp add: and_then_def)

lemma and_then_eq_Inr: "and_then r f = Inr y \<longleftrightarrow> (\<exists>v. r = Inr v \<and> f v = Inr y)"
  by (cases r) simp_all

section \<open>Player lookup\<close>






section \<open>Reading fields\<close>

lemma getitem_field: "getitem j k = Inr v \<longleftrightarrow> field j k = Some v"
  by (cases j) (auto split: option.splits)

lemma is_completed_status:
  assumes "is_completed game = Inr b"
  shows "b = (status_type_name game = Some (JStr ''STATUS_FINAL''))"
proof (cases game)
  case (JObj kvs)
  show ?thesis
  proof (cases "map_of kvs ''status''")
    case None
    with JObj assms show ?thesis
      by (simp add: is_completed_def status_type_name_def)
  next
    case (Some status)
    with JObj assms obtain type name where
      "getitem status ''type'' = Inr type" "getitem type ''name'' = Inr name"
      "b = (name = JStr ''STATUS_FINAL'')"
      by (auto simp: is_completed_def and_then_eq_Inr)
    with JObj Some show ?thesis
      by (simp add: status_type_name_def getitem_field)
  qed
next
  case (JArr xs)
  with assms show ?thesis
    by (auto simp: is_completed_def status_type_name_def split: if_splits)
next
  case (JStr s)
  with assms show ?thesis
    by (auto simp: is_completed_def status_type_name_def split: if_splits)
qed (use assms in \<open>simp_all add: is_completed_def\<close>)

lemma event_game_first:
  assumes "event_game ev = Inr game"
  shows "first_competition ev = Some game
         \<or> (first_competition ev = None \<and> (\<exists>c. game = JStr [c]))"
proof -
  from assms obtain comps where c: "field ev ''competitions'' = Some comps"
    and g: "getitem0 comps = Inr game"
    by (auto simp: event_game_def and_then_eq_Inr getitem_field)
  from g show ?thesis
    by (cases comps rule: getitem0.cases) (auto simp: first_competition_def c)
qed

lemma not_completed_char: "is_completed (JStr [c]) = Inr False"
  using sublist_length_le [of "''status''" "[c]"] by (auto simp: is_completed_def)

section \<open>The loop over the events\<close>

lemma completed_games_entries:
  "completed_games evs acc = Inr gs \<Longrightarrow>
   map Some gs = map Some acc @ map entry_of (filter final_event evs)"
proof (induction evs arbitrary: acc)
  case Nil
  then show ?case by simp
next
  case (Cons ev evs)
  from Cons.prems obtain game completed where
    eg: "event_game ev = Inr game" and ic: "is_completed game = Inr completed"
    by (auto simp: and_then_eq_Inr)
  note st = is_completed_status [OF ic]
  show ?case
  proof (cases completed)
    case False
    with Cons.prems eg ic have "completed_games evs acc = Inr gs"
      by simp
    then have ih: "map Some gs = map Some acc @ map entry_of (filter final_event evs)"
      by (rule Cons.IH)
    have "\<not> final_event ev"
      using event_game_first [OF eg] st False by (auto simp: final_event_def)
    with ih show ?thesis by simp
  next
    case True
    with ic not_completed_char have "\<forall>c. game \<noteq> JStr [c]"
      by auto
    with event_game_first [OF eg] have fc: "first_competition ev = Some game"
      by auto
    from Cons.prems eg ic True obtain d game_date i where
      d: "getitem game ''date'' = Inr d" and p: "strptime d = Inr game_date"
      and i: "getitem game ''id'' = Inr i"
      and rest: "completed_games evs (acc @ [\<lparr>game_id = i, date = game_date\<rparr>]) = Inr gs"
      by (auto simp: and_then_eq_Inr)
    from p obtain s where s: "d = JStr s" "parse_date s = Some game_date"
      by (cases d) (auto split: option.splits)
    have e: "entry_of ev = Some \<lparr>game_id = i, date = game_date\<rparr>"
      using fc d i s by (simp add: entry_of_def getitem_field)
    have f: "final_event ev"
      using fc st True by (simp add: final_event_def)
    from Cons.IH [OF rest] e f show ?thesis by simp
  qed
qed

lemma completed_games_skip:
  "event_game ev = Inr game \<Longrightarrow> is_completed game = Inr False \<Longrightarrow>
   completed_games (pre @ ev # post) acc = completed_games (pre @ post) acc"
  by (induction pre arbitrary: acc) (simp_all cong: if_cong)




section \<open>The loop over the selected games\<close>





lemma fetch_game_stats_trace:
  "fetch_game_stats net tr gs acc = (r, tr') \<Longrightarrow>
   \<exists>k\<le>length gs. tr' = tr @ map (\<lambda>g. game_stats_url (game_id g)) (take k gs)"
proof (induction gs arbitrary: tr acc)
  case Nil
  then show ?case by simp
next
  case (Cons g gs)
  show ?case
  proof (cases "fetch_boxscore net tr g")
    case (Inl e)
    with Cons.prems have "tr' = tr @ map (\<lambda>g. game_stats_url (game_id g)) (take 1 (g # gs))"
      by simp
    then show ?thesis
      by (intro exI [of _ 1]) simp
  next
    case (Inr b)
    with Cons.prems have
      "fetch_game_stats net (tr @ [game_stats_url (game_id g)]) gs (acc @ [b]) = (r, tr')"
      by simp
    from Cons.IH [OF this] obtain k where "k \<le> length gs"
      "tr' = (tr @ [game_stats_url (game_id g)]) @ map (\<lambda>g. game_stats_url (game_id g)) (take k gs)"
      by blast
    then show ?thesis
      by (intro exI [of _ "Suc k"]) simp
  qed
qed



section \<open>The whole call\<close>


lemma get_recent_game_stats_Inl:
  "fetch_recent_games net tr team_id = Inl e \<Longrightarrow>
   get_recent_game_stats net tr team_id n =
     (except_RequestException (Inl e), tr @ [schedule_url team_id])"
  by (simp add: get_recent_game_stats_def recent_game_stats_body_def)

lemma get_recent_game_stats_Inr:
  "fetch_recent_games net tr team_id = Inr gs \<Longrightarrow>
   get_recent_game_stats net tr team_id n =
     (case fetch_game_stats net (tr @ [schedule_url team_id]) (slice_to (sorted_recent gs) n) [] of
        (Inl e, tr2) \<Rightarrow> (except_RequestException (Inl e), tr2)
      | (Inr bs, tr2) \<Rightarrow> (Inr (JArr bs), tr2))"
  by (simp add: get_recent_game_stats_def recent_game_stats_body_def split: prod.splits sum.splits)


section \<open>Failures of the network\<close>





section \<open>The schedule document\<close>

lemma completed_games_no_dict: "completed_games (JStr s # evs) acc = Inl TypeError"
  by (simp add: event_game_def)

lemma find_recent_games_entries:
  assumes "find_recent_games data = Inr gs"
  shows "map Some gs = map entry_of (filter final_event (schedule_events data))"
proof -
  from assms obtain present where p: "contains ''events'' data = Inr present"
    and rest: "(if present then
         and_then (getitem data ''events'') (\<lambda>events.
         and_then (iterate events) (\<lambda>evs. completed_games evs []))
       else Inr []) = Inr gs"
    by (auto simp: find_recent_games_def and_then_eq_Inr)
  show ?thesis
  proof (cases present)
    case False
    with rest have gs: "gs = []" by simp
    from p False have "field data ''events'' = None"
      by (cases data) auto
    with gs show ?thesis by (simp add: schedule_events_def)
  next
    case True
    with rest obtain events evs where e: "field data ''events'' = Some events"
      and it: "iterate events = Inr evs" and cg: "completed_games evs [] = Inr gs"
      by (auto simp: and_then_eq_Inr getitem_field)
    have "map Some gs = map entry_of (filter final_event evs)"
      using completed_games_entries [OF cg] by simp
    moreover have "evs = schedule_events data \<or> (gs = [] \<and> schedule_events data = [])"
    proof (cases events)
      case (JArr xs)
      with it e show ?thesis by (auto simp: schedule_events_def)
    next
      case (JObj kvs)
      with it cg e show ?thesis
        by (cases kvs)
          (auto simp: schedule_events_def completed_games_no_dict completed_games.simps(1)
             simp del: completed_games.simps)
    next
      case (JStr s)
      with it cg e show ?thesis
        by (cases s)
          (auto simp: schedule_events_def completed_games_no_dict completed_games.simps(1)
             simp del: completed_games.simps)
    qed (use it in simp_all)
    ultimately show ?thesis by auto
  qed
qed

lemma fetch_recent_games_entries:
  assumes "fetch_recent_games net tr team_id = Inr gs"
  shows "\<exists>resp data. net tr (schedule_url team_id) = Reply resp \<and> body resp = Inr data
           \<and> map Some gs = map entry_of (filter final_event (schedule_events data))"
proof -
  from assms obtain resp data where "requests_get net tr (schedule_url team_id) = Inr resp"
    and "response_json resp = Inr data" and f: "find_recent_games data = Inr gs"
    by (auto simp: fetch_recent_games_def and_then_eq_Inr)
  then have "net tr (schedule_url team_id) = Reply resp \<and> body resp = Inr data"
    by (auto simp: requests_get_def response_json_def split: reply.splits sum.splits)
  with find_recent_games_entries [OF f] show ?thesis by blast
qed



lemma length_sorted_recent [simp]: "length (sorted_recent gs) = length gs"
  by (simp add: sorted_recent_def)




section \<open>Dates that do not parse\<close>

lemma first_competition_event_game:
  "first_competition ev = Some game \<Longrightarrow> event_game ev = Inr game"
  by (cases ev)
    (auto simp: first_competition_def event_game_def split: option.splits json.splits list.splits)

lemma status_final_is_completed:
  "status_type_name game = Some (JStr ''STATUS_FINAL'') \<Longrightarrow> is_completed game = Inr True"
proof -
  assume a: "status_type_name game = Some (JStr ''STATUS_FINAL'')"
  then obtain status type where "field game ''status'' = Some status"
    "field status ''type'' = Some type" "field type ''name'' = Some (JStr ''STATUS_FINAL'')"
    by (auto simp: status_type_name_def split: option.splits)
  then have "getitem game ''status'' = Inr status" "getitem status ''type'' = Inr type"
    "getitem type ''name'' = Inr (JStr ''STATUS_FINAL'')"
    by (simp_all add: getitem_field)
  moreover from \<open>field game ''status'' = Some status\<close> have "contains ''status'' game = Inr True"
    by (cases game) simp_all
  ultimately show ?thesis
    by (simp add: is_completed_def)
qed

lemma not_RequestException [simp]:
  "getitem j k \<noteq> Inl (RequestException m)"
  "getitem0 j \<noteq> Inl (RequestException m)"
  "contains k j \<noteq> Inl (RequestException m)"
  "iterate j \<noteq> Inl (RequestException m)"
  "strptime j \<noteq> Inl (RequestException m)"
proof -
  show "getitem j k \<noteq> Inl (RequestException m)"
    by (cases j) (auto split: option.splits)
  show "getitem0 j \<noteq> Inl (RequestException m)"
    by (cases j rule: getitem0.cases) auto
  show "contains k j \<noteq> Inl (RequestException m)"
    by (cases j) auto
  show "iterate j \<noteq> Inl (RequestException m)"
    by (cases j) auto
  show "strptime j \<noteq> Inl (RequestException m)"
    by (cases j) (auto split: option.splits)
qed

lemma and_then_Inl_cases:
  "and_then r f = Inl e \<Longrightarrow> r = Inl e \<or> (\<exists>v. r = Inr v \<and> f v = Inl e)"
  by (cases r) simp_all

lemma event_game_not_RequestException [simp]: "event_game ev \<noteq> Inl (RequestException m)"
  unfolding event_game_def
  by (auto dest!: and_then_Inl_cases)

lemma is_completed_not_RequestException [simp]: "is_completed g \<noteq> Inl (RequestException m)"
  unfolding is_completed_def
  by (auto dest!: and_then_Inl_cases split: if_splits)






section \<open>Which events are retained\<close>

lemma status_name_is_completed:
  assumes "status_type_name game = Some v"
  shows "is_completed game = Inr (v = JStr ''STATUS_FINAL'')"
proof -
  from assms obtain status type where "field game ''status'' = Some status"
    "field status ''type'' = Some type" "field type ''name'' = Some v"
    by (auto simp: status_type_name_def split: option.splits)
  then have "getitem game ''status'' = Inr status" "getitem status ''type'' = Inr type"
    "getitem type ''name'' = Inr v"
    by (simp_all add: getitem_field)
  moreover from \<open>field game ''status'' = Some status\<close> have "contains ''status'' game = Inr True"
    by (cases game) simp_all
  ultimately show ?thesis
    by (simp add: is_completed_def)
qed

lemma set_slice_to: "set (slice_to xs n) \<subseteq> set xs"
  by (simp add: slice_to_def set_take_subset)

lemma set_sorted_recent [simp]: "set (sorted_recent gs) = set gs"
  by (simp add: sorted_recent_def)

lemma recent_game_stats_requests:
  assumes "get_recent_game_stats net tr team_id n = (r, tr')"
  shows "\<exists>games. tr' = tr @ schedule_url team_id # map (\<lambda>g. game_stats_url (game_id g)) games
           \<and> (\<forall>gs. fetch_recent_games net tr team_id = Inr gs \<longrightarrow> set games \<subseteq> set gs)
           \<and> (\<forall>e. fetch_recent_games net tr team_id = Inl e \<longrightarrow> games = [])"
proof (cases "fetch_recent_games net tr team_id")
  case (Inl e)
  with get_recent_game_stats_Inl [OF Inl, of n] assms show ?thesis
    by (intro exI [of _ "[]"]) simp
next
  case (Inr gs)
  let ?sel = "slice_to (sorted_recent gs) n"
  obtain r' tr2 where
    run: "fetch_game_stats net (tr @ [schedule_url team_id]) ?sel [] = (r', tr2)"
    by (cases "fetch_game_stats net (tr @ [schedule_url team_id]) ?sel []")
  with get_recent_game_stats_Inr [OF Inr, of n] assms have "tr2 = tr'"
    by (auto split: sum.splits)
  with fetch_game_stats_trace [OF run] obtain k where
    tr': "tr' = (tr @ [schedule_url team_id]) @ map (\<lambda>g. game_stats_url (game_id g)) (take k ?sel)"
    by blast
  have "set (take k ?sel) \<subseteq> set gs"
    using set_take_subset [of k ?sel] set_slice_to [of "sorted_recent gs" n] by auto
  with tr' Inr show ?thesis
    by (intro exI [of _ "take k ?sel"]) simp
qed

text \<open>
  Claim C2. For every schedule document, the games that \<open>get_recent_game_stats\<close> retains
  are exactly those of the events whose status type name is the literal \<^verbatim>\<open>STATUS_FINAL\<close>,
  in the order of the schedule. An event whose game has no \<^verbatim>\<open>status\<close> field is skipped
  without an exception, an event with any other status name is skipped as well, and every
  per-game request of a call is made for a final event of the schedule.
\<close>

theorem only_final_events_retained:
  "(find_recent_games data = Inr gs \<longrightarrow>
      map Some gs = map entry_of (filter final_event (schedule_events data)))
   \<and> (first_competition ev = Some (JObj kvs) \<and> map_of kvs ''status'' = None \<longrightarrow>
      completed_games (pre @ ev # post) acc = completed_games (pre @ post) acc)
   \<and> (first_competition ev = Some game \<and> status_type_name game = Some v
        \<and> v \<noteq> JStr ''STATUS_FINAL'' \<longrightarrow>
      completed_games (pre @ ev # post) acc = completed_games (pre @ post) acc)
   \<and> (get_recent_game_stats net tr team_id n = (r, tr')
        \<and> net tr (schedule_url team_id) = Reply resp \<and> body resp = Inr data \<longrightarrow>
      (\<exists>games. tr' = tr @ schedule_url team_id # map (\<lambda>g. game_stats_url (game_id g)) games
         \<and> (\<forall>g \<in> set games. \<exists>ev \<in> set (schedule_events data).
               final_event ev \<and> entry_of ev = Some g)))"
proof (intro conjI impI)
  assume "find_recent_games data = Inr gs"
  then show "map Some gs = map entry_of (filter final_event (schedule_events data))"
    by (rule find_recent_games_entries)
next
  assume a: "first_competition ev = Some (JObj kvs) \<and> map_of kvs ''status'' = None"
  then have "event_game ev = Inr (JObj kvs)"
    by (simp add: first_competition_event_game)
  moreover from a have "is_completed (JObj kvs) = Inr False"
    by (simp add: is_completed_def)
  ultimately show "completed_games (pre @ ev # post) acc = completed_games (pre @ post) acc"
    by (rule completed_games_skip)
next
  assume a: "first_competition ev = Some game \<and> status_type_name game = Some v
        \<and> v \<noteq> JStr ''STATUS_FINAL''"
  then have "event_game ev = Inr game"
    by (simp add: first_competition_event_game)
  moreover from a have "is_completed game = Inr False"
    by (simp add: status_name_is_completed)
  ultimately show "completed_games (pre @ ev # post) acc = completed_games (pre @ post) acc"
    by (rule completed_games_skip)
next
  assume "get_recent_game_stats net tr team_id n = (r, tr')
        \<and> net tr (schedule_url team_id) = Reply resp \<and> body resp = Inr data"
  then have run: "get_recent_game_stats net tr team_id n = (r, tr')"
    and reply: "net tr (schedule_url team_id) = Reply resp" "body resp = Inr data"
    by blast+
  from recent_game_stats_requests [OF run] obtain games where
    tr': "tr' = tr @ schedule_url team_id # map (\<lambda>g. game_stats_url (game_id g)) games"
    and sub: "\<forall>gs. fetch_recent_games net tr team_id = Inr gs \<longrightarrow> set games \<subseteq> set gs"
    and none: "\<forall>e. fetch_recent_games net tr team_id = Inl e \<longrightarrow> games = []"
    by blast
  have "\<exists>ev \<in> set (schedule_events data). final_event ev \<and> entry_of ev = Some g"
    if g: "g \<in> set games" for g
  proof (cases "fetch_recent_games net tr team_id")
    case (Inl e)
    with none g show ?thesis by simp
  next
    case (Inr gs)
    from fetch_recent_games_entries [OF Inr] reply
    have "map Some gs = map entry_of (filter final_event (schedule_events data))"
      by auto
    moreover from sub Inr g have "Some g \<in> set (map Some gs)"
      by auto
    ultimately have "Some g \<in> set (map entry_of (filter final_event (schedule_events data)))"
      by simp
    then show ?thesis by auto
  qed
  with tr' show "\<exists>games. tr' = tr @ schedule_url team_id # map (\<lambda>g. game_stats_url (game_id g)) games
         \<and> (\<forall>g \<in> set games. \<exists>ev \<in> set (schedule_events data).
               final_event ev \<and> entry_of ev = Some g)"
    by blast
qed

theorem only_final_events_retained_witness:
  "find_recent_games example_schedule =
     Inr [\<lparr>game_id = JStr ''401'', date = (2024, 1, 1, 18, 0)\<rparr>,
          \<lparr>game_id = JStr ''402'', date = (2024, 1, 8, 18, 0)\<rparr>,
          \<lparr>game_id = JStr ''403'', date = (2024, 1, 15, 21, 25)\<rparr>]
   \<and> map entry_of (filter final_event (schedule_events example_schedule)) =
       map Some [\<lparr>game_id = JStr ''401'', date = (2024, 1, 1, 18, 0)\<rparr>,
                 \<lparr>game_id = JStr ''402'', date = (2024, 1, 8, 18, 0)\<rparr>,
                 \<lparr>game_id = JStr ''403'', date = (2024, 1, 15, 21, 25)\<rparr>]
   \<and> first_competition event_without_status =
       Some (JObj [(''id'', JStr ''405''), (''date'', JStr ''TBD'')])
   \<and> map_of [(''id'', JStr ''405''), (''date'', JStr ''TBD'')] ''status'' = None
   \<and> completed_games
        ([example_event ''401'' ''2024-01-01T18:00Z'' ''STATUS_FINAL''] @ event_without_status
          # [example_event ''403'' ''2024-01-15T21:25Z'' ''STATUS_FINAL'']) []
       = Inr [\<lparr>game_id = JStr ''401'', date = (2024, 1, 1, 18, 0)\<rparr>,
              \<lparr>game_id = JStr ''403'', date = (2024, 1, 15, 21, 25)\<rparr>]
   \<and> first_competition (example_event ''404'' ''2024-01-22T18:00Z'' ''STATUS_SCHEDULED'') =
       Some (JObj [(''id'', JStr ''404''), (''date'', JStr ''2024-01-22T18:00Z''),
                   (''status'', JObj [(''type'', JObj [(''name'', JStr ''STATUS_SCHEDULED'')])])])
   \<and> status_type_name
        (JObj [(''id'', JStr ''404''), (''date'', JStr ''2024-01-22T18:00Z''),
               (''status'', JObj [(''type'', JObj [(''name'', JStr ''STATUS_SCHEDULED'')])])])
       = Some (JStr ''STATUS_SCHEDULED'')
   \<and> JStr ''STATUS_SCHEDULED'' \<noteq> JStr ''STATUS_FINAL''
   \<and> completed_games
        ([example_event ''401'' ''2024-01-01T18:00Z'' ''STATUS_FINAL'']
          @ example_event ''404'' ''2024-01-22T18:00Z'' ''STATUS_SCHEDULED''
          # [example_event ''403'' ''2024-01-15T21:25Z'' ''STATUS_FINAL'']) []
       = Inr [\<lparr>game_id = JStr ''401'', date = (2024, 1, 1, 18, 0)\<rparr>,
              \<lparr>game_id = JStr ''403'', date = (2024, 1, 15, 21, 25)\<rparr>]
   \<and> get_recent_game_stats example_network [] ''12'' 2 =
       (Inr (JArr [example_boxscore (JStr ''403''), example_boxscore (JStr ''402'')]),
        [schedule_url ''12'', game_stats_url (JStr ''403''), game_stats_url (JStr ''402'')])
   \<and> example_network [] (schedule_url ''12'') = Reply (ok_response example_schedule)
   \<and> body (ok_response example_schedule) = Inr example_schedule
   \<and> (\<exists>ev g. ev \<in> set (schedule_events example_schedule) \<and> final_event ev
         \<and> entry_of ev = Some g \<and> game_id g = JStr ''403'')"
proof -
  let ?g1 = "\<lparr>game_id = JStr ''401'', date = (2024, 1, 1, 18, 0)\<rparr>"
  let ?g2 = "\<lparr>game_id = JStr ''402'', date = (2024, 1, 8, 18, 0)\<rparr>"
  let ?g3 = "\<lparr>game_id = JStr ''403'', date = (2024, 1, 15, 21, 25)\<rparr>"
  let ?e1 = "example_event ''401'' ''2024-01-01T18:00Z'' ''STATUS_FINAL''"
  let ?e3 = "example_event ''403'' ''2024-01-15T21:25Z'' ''STATUS_FINAL''"
  let ?e4 = "example_event ''404'' ''2024-01-22T18:00Z'' ''STATUS_SCHEDULED''"
  let ?game4 = "JObj [(''id'', JStr ''404''), (''date'', JStr ''2024-01-22T18:00Z''),
               (''status'', JObj [(''type'', JObj [(''name'', JStr ''STATUS_SCHEDULED'')])])]"
  let ?kvs = "[(''id'', JStr ''405''), (''date'', JStr ''TBD'')]"
  let ?tr = "[schedule_url ''12'', game_stats_url (JStr ''403''), game_stats_url (JStr ''402'')]"
  let ?r = "Inr (JArr [example_boxscore (JStr ''403''), example_boxscore (JStr ''402'')])"
  note part1 = only_final_events_retained [THEN conjunct1, THEN mp]
  note part2 = only_final_events_retained [THEN conjunct2, THEN conjunct1, THEN mp, OF conjI]
  note part3 = only_final_events_retained
    [THEN conjunct2, THEN conjunct2, THEN conjunct1, THEN mp, OF conjI [OF _ conjI]]
  have a1: "find_recent_games example_schedule = Inr [?g1, ?g2, ?g3]"
    by code_simp
  have c1: "map entry_of (filter final_event (schedule_events example_schedule))
              = map Some [?g1, ?g2, ?g3]"
    using part1 [OF a1] by simp
  have a2: "first_competition event_without_status = Some (JObj ?kvs)"
    by (simp add: first_competition_def event_without_status_def)
  have a2': "map_of ?kvs ''status'' = None"
    by simp
  have "completed_games ([?e1] @ [?e3]) [] = Inr [?g1, ?g3]"
    by code_simp
  moreover have "completed_games ([?e1] @ event_without_status # [?e3]) []
                   = completed_games ([?e1] @ [?e3]) []"
    using a2 a2' by (rule part2)
  ultimately have c2: "completed_games ([?e1] @ event_without_status # [?e3]) [] = Inr [?g1, ?g3]"
    by simp
  have a3: "first_competition ?e4 = Some ?game4"
    by (simp add: first_competition_def example_event_def)
  have a3': "status_type_name ?game4 = Some (JStr ''STATUS_SCHEDULED'')"
    by (simp add: status_type_name_def)
  have a3'': "JStr ''STATUS_SCHEDULED'' \<noteq> JStr ''STATUS_FINAL''"
    by simp
  have "completed_games ([?e1] @ ?e4 # [?e3]) [] = completed_games ([?e1] @ [?e3]) []"
    using a3 a3' a3'' by (rule part3)
  with \<open>completed_games ([?e1] @ [?e3]) [] = Inr [?g1, ?g3]\<close>
  have c3: "completed_games ([?e1] @ ?e4 # [?e3]) [] = Inr [?g1, ?g3]"
    by simp
  have a4: "get_recent_game_stats example_network [] ''12'' 2 = (?r, ?tr)"
    by code_simp
  have a4': "example_network [] (schedule_url ''12'') = Reply (ok_response example_schedule)"
    by (simp add: example_network_def)
  have a4'': "body (ok_response example_schedule) = Inr example_schedule"
    by (simp add: ok_response_def)
  have "\<exists>games. ?tr = [] @ schedule_url ''12'' # map (\<lambda>g. game_stats_url (game_id g)) games
         \<and> (\<forall>g \<in> set games. \<exists>ev \<in> set (schedule_events example_schedule).
               final_event ev \<and> entry_of ev = Some g)"
    using only_final_events_retained
      [where net = example_network and tr = "[]" and team_id = "''12''" and n = 2
        and r = ?r and tr' = ?tr and resp = "ok_response example_schedule"
        and data = example_schedule,
        THEN conjunct2, THEN conjunct2, THEN conjunct2, THEN mp, OF conjI [OF _ conjI],
        OF a4 a4' a4'']
    by simp
  then obtain games where
    games': "?tr = [] @ schedule_url ''12'' # map (\<lambda>g. game_stats_url (game_id g)) games"
    and final: "\<forall>g \<in> set games. \<exists>ev \<in> set (schedule_events example_schedule).
               final_event ev \<and> entry_of ev = Some g"
    by blast
  from games' have
    games: "map (\<lambda>g. game_stats_url (game_id g)) games
              = [game_stats_url (JStr ''403''), game_stats_url (JStr ''402'')]"
    by simp
  from games obtain g games' where g: "games = g # games'" "game_id g = JStr ''403''"
    by (cases games) (auto simp: game_stats_url_def)
  with final have c4: "\<exists>ev g. ev \<in> set (schedule_events example_schedule) \<and> final_event ev
         \<and> entry_of ev = Some g \<and> game_id g = JStr ''403''"
    by auto
  from a1 c1 a2 a2' c2 a3 a3' a3'' c3 a4 a4' a4'' c4 show ?thesis
    by (intro conjI)
qed

section \<open>A negative number of games\<close>










section \<open>Missing fields\<close>

lemma raise_for_status_ok:
  "failure_text (Reply resp) = None \<Longrightarrow> raise_for_status resp = Inr ()"
  by (simp add: failure_text_def raise_for_status_def split: if_splits)

lemma final_game_is_completed:
  "map_of kvs ''status'' = Some status \<Longrightarrow> field status ''type'' = Some type \<Longrightarrow>
   field type ''name'' = Some (JStr ''STATUS_FINAL'') \<Longrightarrow> is_completed (JObj kvs) = Inr True"
  by (rule status_final_is_completed) (simp add: status_type_name_def)

text \<open>
  Claim C5 (as amended). The functions read the named fields of the responses. On a
  response that is a JSON object, a missing \<^verbatim>\<open>athletes\<close> key, a missing \<^verbatim>\<open>items\<close> key of a
  category, a missing \<^verbatim>\<open>events\<close> key, a missing \<^verbatim>\<open>status\<close> key of a game and a missing
  \<^verbatim>\<open>team\<close> key are treated as absent or empty, and nothing is raised. The other named
  fields are read by subscript: a player without \<^verbatim>\<open>displayName\<close>, a matching player
  without \<^verbatim>\<open>id\<close>, an event without \<^verbatim>\<open>competitions\<close>, a status without \<^verbatim>\<open>type\<close>, a type
  without \<^verbatim>\<open>name\<close>, a final game without \<^verbatim>\<open>date\<close> or without \<^verbatim>\<open>id\<close>, and a game summary
  without \<^verbatim>\<open>boxscore\<close> raise \<^verbatim>\<open>KeyError\<close>.
\<close>

theorem missing_fields:
  "(net tr (roster_url team_id) = Reply resp \<and> body resp = Inr (JObj kvs)
      \<and> map_of kvs ''athletes'' = None \<longrightarrow>
    get_team_players net tr team_id = (Inr [], tr @ [roster_url team_id]))
   \<and> (map_of kvs ''items'' = None \<longrightarrow>
    collect_items (JObj kvs # categories) = collect_items categories)
   \<and> (net tr (schedule_url team_id) = Reply resp \<and> failure_text (Reply resp) = None
      \<and> body resp = Inr (JObj kvs) \<and> map_of kvs ''events'' = None \<longrightarrow>
    get_recent_game_stats net tr team_id n = (Inr (JArr []), tr @ [schedule_url team_id]))
   \<and> (first_competition ev = Some (JObj kvs) \<and> map_of kvs ''status'' = None \<longrightarrow>
    completed_games (ev # events) acc = completed_games events acc)
   \<and> (net tr (team_stats_url team_id) = Reply resp \<and> failure_text (Reply resp) = None
      \<and> body resp = Inr (JObj kvs) \<and> map_of kvs ''team'' = None \<longrightarrow>
    get_nfl_team_stats net tr team_id =
      (Inr (error_dict ''Team stats not found''), tr @ [team_stats_url team_id]))
   \<and> (map_of kvs ''displayName'' = None \<longrightarrow>
    get_player_id name (JObj kvs # players) = Inl KeyError)
   \<and> (map_of kvs ''displayName'' = Some (JStr s) \<and> lower s = lower name
      \<and> map_of kvs ''id'' = None \<longrightarrow>
    get_player_id name (JObj kvs # players) = Inl KeyError)
   \<and> (net tr (schedule_url team_id) = Reply resp \<and> failure_text (Reply resp) = None
      \<and> body resp = Inr (JObj kvs) \<and> map_of kvs ''events'' = Some (JArr (JObj e # events))
      \<and> map_of e ''competitions'' = None \<longrightarrow>
    get_recent_game_stats net tr team_id n = (Inl KeyError, tr @ [schedule_url team_id]))
   \<and> (first_competition ev = Some (JObj kvs) \<and> map_of kvs ''status'' = Some (JObj st)
      \<and> map_of st ''type'' = None \<longrightarrow>
    completed_games (ev # events) acc = Inl KeyError)
   \<and> (first_competition ev = Some (JObj kvs) \<and> map_of kvs ''status'' = Some (JObj st)
      \<and> map_of st ''type'' = Some (JObj ty) \<and> map_of ty ''name'' = None \<longrightarrow>
    completed_games (ev # events) acc = Inl KeyError)
   \<and> (first_competition ev = Some (JObj kvs) \<and> map_of kvs ''status'' = Some (JObj st)
      \<and> map_of st ''type'' = Some (JObj ty)
      \<and> map_of ty ''name'' = Some (JStr ''STATUS_FINAL'') \<and> map_of kvs ''date'' = None \<longrightarrow>
    completed_games (ev # events) acc = Inl KeyError)
   \<and> (first_competition ev = Some (JObj kvs) \<and> map_of kvs ''status'' = Some (JObj st)
      \<and> map_of st ''type'' = Some (JObj ty)
      \<and> map_of ty ''name'' = Some (JStr ''STATUS_FINAL'')
      \<and> map_of kvs ''date'' = Some (JStr s) \<and> parse_date s = Some d
      \<and> map_of kvs ''id'' = None \<longrightarrow>
    completed_games (ev # events) acc = Inl KeyError)
   \<and> (net tr (game_stats_url (game_id g)) = Reply resp \<and> failure_text (Reply resp) = None
      \<and> body resp = Inr (JObj kvs) \<and> map_of kvs ''boxscore'' = None \<longrightarrow>
    fetch_boxscore net tr g = Inl KeyError)"
proof (intro conjI impI; (elim conjE)?)
  assume "net tr (roster_url team_id) = Reply resp" "body resp = Inr (JObj kvs)"
    "map_of kvs ''athletes'' = None"
  then show "get_team_players net tr team_id = (Inr [], tr @ [roster_url team_id])"
    by (simp add: get_team_players_def requests_get_def response_json_def)
next
  assume "map_of kvs ''items'' = None"
  then show "collect_items (JObj kvs # categories) = collect_items categories"
    by (cases "collect_items categories") (simp_all add: category_items_def)
next
  assume "net tr (schedule_url team_id) = Reply resp" "failure_text (Reply resp) = None"
    "body resp = Inr (JObj kvs)" "map_of kvs ''events'' = None"
  then have "fetch_recent_games net tr team_id = Inr []"
    by (simp add: fetch_recent_games_def requests_get_def raise_for_status_ok
        response_json_def find_recent_games_def)
  then show "get_recent_game_stats net tr team_id n = (Inr (JArr []), tr @ [schedule_url team_id])"
    by (simp add: get_recent_game_stats_Inr sorted_recent_def slice_to_def)
next
  assume "first_competition ev = Some (JObj kvs)" "map_of kvs ''status'' = None"
  then show "completed_games (ev # events) acc = completed_games events acc"
    by (simp add: first_competition_event_game is_completed_def)
next
  assume "net tr (team_stats_url team_id) = Reply resp" "failure_text (Reply resp) = None"
    "body resp = Inr (JObj kvs)" "map_of kvs ''team'' = None"
  then show "get_nfl_team_stats net tr team_id =
      (Inr (error_dict ''Team stats not found''), tr @ [team_stats_url team_id])"
    by (simp add: get_nfl_team_stats_def requests_get_def raise_for_status_ok response_json_def)
next
  assume "map_of kvs ''displayName'' = None"
  then show "get_player_id name (JObj kvs # players) = Inl KeyError"
    by simp
next
  assume "map_of kvs ''displayName'' = Some (JStr s)" "lower s = lower name"
    "map_of kvs ''id'' = None"
  then show "get_player_id name (JObj kvs # players) = Inl KeyError"
    by simp
next
  assume "net tr (schedule_url team_id) = Reply resp" "failure_text (Reply resp) = None"
    "body resp = Inr (JObj kvs)" "map_of kvs ''events'' = Some (JArr (JObj e # events))"
    "map_of e ''competitions'' = None"
  then have "fetch_recent_games net tr team_id = Inl KeyError"
    by (simp add: fetch_recent_games_def requests_get_def raise_for_status_ok
        response_json_def find_recent_games_def event_game_def)
  then show "get_recent_game_stats net tr team_id n = (Inl KeyError, tr @ [schedule_url team_id])"
    by (simp add: get_recent_game_stats_Inl)
next
  assume "first_competition ev = Some (JObj kvs)" "map_of kvs ''status'' = Some (JObj st)"
    "map_of st ''type'' = None"
  then show "completed_games (ev # events) acc = Inl KeyError"
    by (simp add: first_competition_event_game is_completed_def)
next
  assume "first_competition ev = Some (JObj kvs)" "map_of kvs ''status'' = Some (JObj st)"
    "map_of st ''type'' = Some (JObj ty)" "map_of ty ''name'' = None"
  then show "completed_games (ev # events) acc = Inl KeyError"
    by (simp add: first_competition_event_game is_completed_def)
next
  assume "first_competition ev = Some (JObj kvs)" "map_of kvs ''status'' = Some (JObj st)"
    "map_of st ''type'' = Some (JObj ty)" "map_of ty ''name'' = Some (JStr ''STATUS_FINAL'')"
    "map_of kvs ''date'' = None"
  then show "completed_games (ev # events) acc = Inl KeyError"
    by (simp add: first_competition_event_game final_game_is_completed)
next
  assume "first_competition ev = Some (JObj kvs)" "map_of kvs ''status'' = Some (JObj st)"
    "map_of st ''type'' = Some (JObj ty)" "map_of ty ''name'' = Some (JStr ''STATUS_FINAL'')"
    "map_of kvs ''date'' = Some (JStr s)" "parse_date s = Some d" "map_of kvs ''id'' = None"
  then show "completed_games (ev # events) acc = Inl KeyError"
    by (simp add: first_competition_event_game final_game_is_completed)
next
  assume "net tr (game_stats_url (game_id g)) = Reply resp" "failure_text (Reply resp) = None"
    "body resp = Inr (JObj kvs)" "map_of kvs ''boxscore'' = None"
  then show "fetch_boxscore net tr g = Inl KeyError"
    by (simp add: fetch_boxscore_def requests_get_def raise_for_status_ok response_json_def)
qed

text \<open>
  The claim as first stated (no field access raises) fails: a roster entry without
  \<^verbatim>\<open>displayName\<close> makes \<open>get_player_id\<close> raise \<^verbatim>\<open>KeyError\<close>.
\<close>

theorem missing_display_name_counterexample:
  "get_player_id ''Patrick Mahomes''
     [JObj [(''id'', JStr ''3139477''), (''fullName'', JStr ''Patrick Mahomes'')]] = Inl KeyError"
  by code_simp


theorem missing_fields_witness:
  "get_team_players bare_network [] ''12'' = (Inr [], [] @ [roster_url ''12''])
   \<and> collect_items [JObj [(''position'', JStr ''offense'')], JObj [(''items'', JArr example_roster)]]
       = Inr example_roster
   \<and> get_recent_game_stats bare_network [] ''12'' 2 = (Inr (JArr []), [] @ [schedule_url ''12''])
   \<and> completed_games [event_without_status] [] = Inr []
   \<and> get_nfl_team_stats bare_network [] ''12'' =
       (Inr (error_dict ''Team stats not found''), [] @ [team_stats_url ''12''])
   \<and> get_player_id ''Travis Kelce'' (JObj [(''id'', JStr ''15847'')] # example_roster)
       = Inl KeyError
   \<and> get_player_id ''Travis Kelce'' (JObj [(''displayName'', JStr ''TRAVIS KELCE'')] # example_roster)
       = Inl KeyError
   \<and> get_recent_game_stats no_competitions_network [] ''12'' 2
       = (Inl KeyError, [] @ [schedule_url ''12''])
   \<and> completed_games [event_of_game [(''status'', JObj [])]] [] = Inl KeyError
   \<and> completed_games [event_of_game [(''status'', JObj [(''type'', JObj [])])]] [] = Inl KeyError
   \<and> completed_games
        [event_of_game
          [(''status'', JObj [(''type'', JObj [(''name'', JStr ''STATUS_FINAL'')])])]] []
       = Inl KeyError
   \<and> completed_games
        [event_of_game
          [(''status'', JObj [(''type'', JObj [(''name'', JStr ''STATUS_FINAL'')])]),
           (''date'', JStr ''2024-01-01T18:00Z'')]] []
       = Inl KeyError
   \<and> fetch_boxscore bare_network [] \<lparr>game_id = JStr ''401'', date = (2024, 1, 1, 18, 0)\<rparr>
       = Inl KeyError"
proof -
  have fc: "first_competition (event_of_game kvs) = Some (JObj kvs)" for kvs
    by (simp add: first_competition_def event_of_game_def)
  have bare: "bare_network tr u = Reply (ok_response (JObj bare_document))" for tr u
    by (simp add: bare_network_def)
  have ok: "failure_text (Reply (ok_response d)) = None" "body (ok_response d) = Inr d" for d
    by (simp_all add: failure_text_def ok_response_def)
  have c1: "get_team_players bare_network [] ''12'' = (Inr [], [] @ [roster_url ''12''])"
    by (rule missing_fields [where kvs = bare_document and resp = "ok_response (JObj bare_document)",
          THEN conjunct1, THEN mp])
      (simp add: bare ok bare_document_def)
  have "collect_items [JObj [(''items'', JArr example_roster)]] = Inr example_roster"
    by (simp add: category_items_def)
  moreover have "collect_items (JObj [(''position'', JStr ''offense'')]
                    # [JObj [(''items'', JArr example_roster)]])
                   = collect_items [JObj [(''items'', JArr example_roster)]]"
    by (rule missing_fields [where kvs = "[(''position'', JStr ''offense'')]",
          THEN conjunct2, THEN conjunct1, THEN mp]) simp
  ultimately have c2: "collect_items [JObj [(''position'', JStr ''offense'')],
                          JObj [(''items'', JArr example_roster)]] = Inr example_roster"
    by simp
  have c3: "get_recent_game_stats bare_network [] ''12'' 2
              = (Inr (JArr []), [] @ [schedule_url ''12''])"
    by (rule missing_fields [where kvs = bare_document and resp = "ok_response (JObj bare_document)",
          THEN conjunct2, THEN conjunct2, THEN conjunct1, THEN mp])
      (simp add: bare ok bare_document_def)
  have "first_competition event_without_status
          = Some (JObj [(''id'', JStr ''405''), (''date'', JStr ''TBD'')])"
    by (simp add: first_competition_def event_without_status_def)
  then have "completed_games (event_without_status # []) [] = completed_games [] []"
    by (intro missing_fields [where kvs = "[(''id'', JStr ''405''), (''date'', JStr ''TBD'')]",
          THEN conjunct2, THEN conjunct2, THEN conjunct2, THEN conjunct1, THEN mp])
      simp
  then have c4: "completed_games [event_without_status] [] = Inr []"
    by simp
  have c5: "get_nfl_team_stats bare_network [] ''12'' =
       (Inr (error_dict ''Team stats not found''), [] @ [team_stats_url ''12''])"
    by (rule missing_fields [where kvs = bare_document and resp = "ok_response (JObj bare_document)",
          THEN conjunct2, THEN conjunct2, THEN conjunct2, THEN conjunct2, THEN conjunct1, THEN mp])
      (simp add: bare ok bare_document_def)
  have c6: "get_player_id ''Travis Kelce'' (JObj [(''id'', JStr ''15847'')] # example_roster)
              = Inl KeyError"
    by (rule missing_fields [where kvs = "[(''id'', JStr ''15847'')]",
          THEN conjunct2, THEN conjunct2, THEN conjunct2, THEN conjunct2, THEN conjunct2,
          THEN conjunct1, THEN mp]) simp
  have l: "lower ''TRAVIS KELCE'' = lower ''Travis Kelce''"
    by code_simp
  have c7: "get_player_id ''Travis Kelce''
              (JObj [(''displayName'', JStr ''TRAVIS KELCE'')] # example_roster) = Inl KeyError"
    by (rule missing_fields [where kvs = "[(''displayName'', JStr ''TRAVIS KELCE'')]"
          and s = "''TRAVIS KELCE''",
          THEN conjunct2, THEN conjunct2, THEN conjunct2, THEN conjunct2, THEN conjunct2,
          THEN conjunct2, THEN conjunct1, THEN mp])
      (simp add: l)
  have c8: "get_recent_game_stats no_competitions_network [] ''12'' 2
              = (Inl KeyError, [] @ [schedule_url ''12''])"
    by (rule missing_fields [where kvs = no_competitions_schedule
          and resp = "ok_response (JObj no_competitions_schedule)"
          and e = "[(''id'', JStr ''400'')]"
          and events = "[example_event ''401'' ''2024-01-01T18:00Z'' ''STATUS_FINAL'']",
          THEN conjunct2, THEN conjunct2, THEN conjunct2, THEN conjunct2, THEN conjunct2,
          THEN conjunct2, THEN conjunct2, THEN conjunct1, THEN mp])
      (simp add: no_competitions_network_def ok no_competitions_schedule_def)
  have c9: "completed_games [event_of_game [(''status'', JObj [])]] [] = Inl KeyError"
    by (rule missing_fields [where kvs = "[(''status'', JObj [])]" and st = "[]",
          THEN conjunct2, THEN conjunct2, THEN conjunct2, THEN conjunct2, THEN conjunct2,
          THEN conjunct2, THEN conjunct2, THEN conjunct2, THEN conjunct1, THEN mp])
      (simp add: fc)
  have c10: "completed_games [event_of_game [(''status'', JObj [(''type'', JObj [])])]] []
               = Inl KeyError"
    by (rule missing_fields [where kvs = "[(''status'', JObj [(''type'', JObj [])])]"
          and st = "[(''type'', JObj [])]" and ty = "[]",
          THEN conjunct2, THEN conjunct2, THEN conjunct2, THEN conjunct2, THEN conjunct2,
          THEN conjunct2, THEN conjunct2, THEN conjunct2, THEN conjunct2, THEN conjunct1,
          THEN mp])
      (simp add: fc)
  have c11: "completed_games
        [event_of_game
          [(''status'', JObj [(''type'', JObj [(''name'', JStr ''STATUS_FINAL'')])])]] []
       = Inl KeyError"
    by (rule missing_fields [where kvs = "[(''status'', JObj [(''type'', JObj [(''name'', JStr ''STATUS_FINAL'')])])]"
          and st = "[(''type'', JObj [(''name'', JStr ''STATUS_FINAL'')])]"
          and ty = "[(''name'', JStr ''STATUS_FINAL'')]",
          THEN conjunct2, THEN conjunct2, THEN conjunct2, THEN conjunct2, THEN conjunct2,
          THEN conjunct2, THEN conjunct2, THEN conjunct2, THEN conjunct2, THEN conjunct2,
          THEN conjunct1, THEN mp])
      (simp add: fc)
  have p: "parse_date ''2024-01-01T18:00Z'' = Some (2024, 1, 1, 18, 0)"
    by code_simp
  have c12: "completed_games
        [event_of_game
          [(''status'', JObj [(''type'', JObj [(''name'', JStr ''STATUS_FINAL'')])]),
           (''date'', JStr ''2024-01-01T18:00Z'')]] []
       = Inl KeyError"
    by (rule missing_fields
          [where kvs = "[(''status'', JObj [(''type'', JObj [(''name'', JStr ''STATUS_FINAL'')])]),
                         (''date'', JStr ''2024-01-01T18:00Z'')]"
          and st = "[(''type'', JObj [(''name'', JStr ''STATUS_FINAL'')])]"
          and ty = "[(''name'', JStr ''STATUS_FINAL'')]"
          and s = "''2024-01-01T18:00Z''" and d = "(2024, 1, 1, 18, 0)",
          THEN conjunct2, THEN conjunct2, THEN conjunct2, THEN conjunct2, THEN conjunct2,
          THEN conjunct2, THEN conjunct2, THEN conjunct2, THEN conjunct2, THEN conjunct2,
          THEN conjunct2, THEN conjunct1, THEN mp])
      (simp add: fc p)
  have c13: "fetch_boxscore bare_network [] \<lparr>game_id = JStr ''401'', date = (2024, 1, 1, 18, 0)\<rparr>
               = Inl KeyError"
    by (rule missing_fields [where kvs = bare_document and resp = "ok_response (JObj bare_document)",
          THEN conjunct2, THEN conjunct2, THEN conjunct2, THEN conjunct2, THEN conjunct2,
          THEN conjunct2, THEN conjunct2, THEN conjunct2, THEN conjunct2, THEN conjunct2,
          THEN conjunct2, THEN conjunct2, THEN mp])
      (simp add: bare ok bare_document_def)
  from c1 c2 c3 c4 c5 c6 c7 c8 c9 c10 c11 c12 c13 show ?thesis
    by (intro conjI)
qed

section \<open>Sorting by date\<close>

lemma filter_same_key:
  "distinct (map f ys) \<Longrightarrow> k \<in> set ys \<Longrightarrow> filter (\<lambda>x. f k = f x) ys = [k]"
proof (induction ys)
  case Nil
  then show ?case by simp
next
  case (Cons y ys)
  show ?case
  proof (cases "k = y")
    case True
    with Cons.prems(1) have "filter (\<lambda>x. f y = f x) ys = []"
      by (auto simp: filter_empty_conv)
    with True show ?thesis by simp
  next
    case False
    with Cons.prems have k: "k \<in> set ys"
      by simp
    then have "f k \<in> f ` set ys"
      by (rule imageI)
    with Cons.prems(1) have "f k \<noteq> f y"
      by auto
    with Cons k show ?thesis by simp
  qed
qed

lemma sort_key_distinct_keys:
  assumes "mset xs = mset ys" and "distinct (map f ys)" and "sorted (map f ys)"
  shows "sort_key f xs = ys"
proof (rule properties_for_sort_key)
  show "mset ys = mset xs"
    using assms(1) by simp
  show "sorted (map f ys)"
    by (rule assms(3))
  fix k
  assume k: "k \<in> set ys"
  then have ys: "filter (\<lambda>x. f k = f x) ys = [k]"
    using assms(2) by (simp add: filter_same_key)
  have "mset (filter (\<lambda>x. f k = f x) xs) = mset (filter (\<lambda>x. f k = f x) ys)"
    using assms(1) by (simp only: mset_filter)
  then have "mset (filter (\<lambda>x. f k = f x) xs) = {#k#}"
    unfolding ys by (simp del: mset_filter)
  then have "filter (\<lambda>x. f k = f x) xs = [k]"
    by (simp only: mset_single_iff)
  with ys show "filter (\<lambda>x. f k = f x) ys = filter (\<lambda>x. f k = f x) xs"
    by simp
qed

lemma sorted_recent_distinct_dates:
  assumes "mset gs = mset ys" and "distinct (map date ys)" and "sorted (map date ys)"
  shows "sorted_recent gs = rev ys"
proof -
  have "mset (rev gs) = mset ys"
    using assms(1) by simp
  then have "sort_key date (rev gs) = ys"
    using assms(2,3) by (rule sort_key_distinct_keys)
  then show ?thesis
    by (simp add: sorted_recent_def)
qed

section \<open>The two most recent games\<close>

lemma completed_games_final:
  assumes "final_event ev" and "entry_of ev = Some g"
  shows "completed_games (ev # evs) acc = completed_games evs (acc @ [g])"
proof -
  from assms(2) obtain game i s d where game: "first_competition ev = Some game"
    and i: "field game ''id'' = Some i" and s: "field game ''date'' = Some (JStr s)"
    and d: "parse_date s = Some d" and g: "g = \<lparr>game_id = i, date = d\<rparr>"
    by (auto simp: entry_of_def split: option.splits json.splits)
  from assms(1) game have "is_completed game = Inr True"
    by (simp add: final_event_def status_final_is_completed)
  with game i s d g show ?thesis
    by (simp add: first_competition_event_game getitem_field [THEN iffD2])
qed

lemma completed_games_other:
  assumes "other_status ev"
  shows "completed_games (ev # evs) acc = completed_games evs acc" and "\<not> final_event ev"
proof -
  from assms obtain game v where game: "first_competition ev = Some game"
    and v: "status_type_name game = Some v" "v \<noteq> JStr ''STATUS_FINAL''"
    by (auto simp: other_status_def split: option.splits)
  then have "is_completed game = Inr False"
    by (simp add: status_name_is_completed)
  with game show "completed_games (ev # evs) acc = completed_games evs acc"
    by (simp add: first_competition_event_game)
  from game v show "\<not> final_event ev"
    by (simp add: final_event_def)
qed

lemma completed_games_all:
  assumes "\<forall>ev \<in> set evs. (final_event ev \<and> entry_of ev \<noteq> None) \<or> other_status ev"
  shows "completed_games evs acc = Inr (acc @ map (\<lambda>ev. the (entry_of ev)) (filter final_event evs))"
  using assms
proof (induction evs arbitrary: acc)
  case Nil
  then show ?case by simp
next
  case (Cons ev evs)
  then have ih: "completed_games evs acc'
                   = Inr (acc' @ map (\<lambda>ev. the (entry_of ev)) (filter final_event evs))" for acc'
    by simp
  from Cons.prems consider (final) g where "final_event ev" "entry_of ev = Some g"
    | (other) "other_status ev"
    by auto
  then show ?case
  proof cases
    case final
    then show ?thesis
      by (simp add: completed_games_final ih del: completed_games.simps)
  next
    case other
    then show ?thesis
      by (simp add: completed_games_other ih del: completed_games.simps)
  qed
qed

lemma fetch_boxscore_ok:
  "net tr (game_stats_url (game_id g)) = Reply r \<Longrightarrow> status_code r = 200 \<Longrightarrow>
   body r = Inr d \<Longrightarrow> field d ''boxscore'' = Some b \<Longrightarrow> fetch_boxscore net tr g = Inr b"
  by (simp add: fetch_boxscore_def requests_get_def raise_for_status_def response_json_def
      getitem_field)

text \<open>
  Claim C1. For a schedule whose events are dated 2024-01-01 (final), 2024-01-08 (final),
  2024-01-15 (final) and 2024-01-22 (scheduled, not final), in any order and at any time
  of the day, \<open>get_recent_game_stats team_id 2\<close> returns the boxscore of the game of
  2024-01-15 first and the boxscore of the game of 2024-01-08 second. The event that is
  not final is not among the completed games, whatever its date, and no request is made
  for it.
\<close>

theorem recent_game_stats_two_most_recent:
  assumes "net tr (schedule_url team_id) = Reply resp" and "status_code resp = 200"
    and "body resp = Inr data" and "field data ''events'' = Some (JArr evs)"
    and "mset evs = {#e1, e2, e3, e4#}"
    and "final_event e1" and "entry_of e1 = Some \<lparr>game_id = i1, date = (2024, 1, 1, h1, m1)\<rparr>"
    and "final_event e2" and "entry_of e2 = Some \<lparr>game_id = i2, date = (2024, 1, 8, h2, m2)\<rparr>"
    and "final_event e3" and "entry_of e3 = Some \<lparr>game_id = i3, date = (2024, 1, 15, h3, m3)\<rparr>"
    and "other_status e4"
    and "net (tr @ [schedule_url team_id]) (game_stats_url i3) = Reply r3"
    and "status_code r3 = 200" and "body r3 = Inr d3" and "field d3 ''boxscore'' = Some b3"
    and "net (tr @ [schedule_url team_id, game_stats_url i3]) (game_stats_url i2) = Reply r2"
    and "status_code r2 = 200" and "body r2 = Inr d2" and "field d2 ''boxscore'' = Some b2"
  shows "get_recent_game_stats net tr team_id 2 =
           (Inr (JArr [b3, b2]), tr @ [schedule_url team_id, game_stats_url i3, game_stats_url i2])
         \<and> (\<exists>gs. fetch_recent_games net tr team_id = Inr gs
               \<and> mset gs = {#\<lparr>game_id = i1, date = (2024, 1, 1, h1, m1)\<rparr>,
                              \<lparr>game_id = i2, date = (2024, 1, 8, h2, m2)\<rparr>,
                              \<lparr>game_id = i3, date = (2024, 1, 15, h3, m3)\<rparr>#})"
proof -
  let ?g1 = "\<lparr>game_id = i1, date = (2024, 1, 1, h1, m1)\<rparr>"
  let ?g2 = "\<lparr>game_id = i2, date = (2024, 1, 8, h2, m2)\<rparr>"
  let ?g3 = "\<lparr>game_id = i3, date = (2024, 1, 15, h3, m3)\<rparr>"
  let ?gs = "map (\<lambda>ev. the (entry_of ev)) (filter final_event evs)"
  note facts = assms(6-11) completed_games_other(2) [OF assms(12)]
  have "set evs = set_mset {#e1, e2, e3, e4#}"
    using assms(5) by (metis set_mset_mset)
  then have "\<forall>ev \<in> set evs. (final_event ev \<and> entry_of ev \<noteq> None) \<or> other_status ev"
    using assms(6-12) by auto
  then have cg: "completed_games evs [] = Inr ?gs"
    using completed_games_all [of evs "[]"] by simp
  from assms(4) have "contains ''events'' data = Inr True"
    "getitem data ''events'' = Inr (JArr evs)"
    by (cases data; simp)+
  with cg have "find_recent_games data = Inr ?gs"
    by (simp add: find_recent_games_def)
  with assms(1-3) have gs: "fetch_recent_games net tr team_id = Inr ?gs"
    by (simp add: fetch_recent_games_def requests_get_def raise_for_status_def response_json_def)
  have "mset ?gs = image_mset (\<lambda>ev. the (entry_of ev)) (filter_mset final_event (mset evs))"
    by simp
  also have "\<dots> = {#?g1, ?g2, ?g3#}"
    unfolding assms(5) using facts by simp
  finally have m: "mset ?gs = {#?g1, ?g2, ?g3#}" .
  have "sorted_recent ?gs = rev [?g1, ?g2, ?g3]"
  proof (rule sorted_recent_distinct_dates)
    show "mset ?gs = mset [?g1, ?g2, ?g3]"
      using m by simp
    show "distinct (map date [?g1, ?g2, ?g3])"
      by simp
    show "sorted (map date [?g1, ?g2, ?g3])"
      by simp
  qed
  then have sel: "slice_to (sorted_recent ?gs) 2 = [?g3, ?g2]"
    by (simp add: slice_to_def)
  have b3: "fetch_boxscore net (tr @ [schedule_url team_id]) ?g3 = Inr b3"
    using assms(13-16) by (intro fetch_boxscore_ok) simp_all
  have b2: "fetch_boxscore net (tr @ [schedule_url team_id, game_stats_url i3]) ?g2 = Inr b2"
    using assms(17-20) by (intro fetch_boxscore_ok) simp_all
  have "fetch_game_stats net (tr @ [schedule_url team_id]) [?g3, ?g2] []
          = (Inr [b3, b2], tr @ [schedule_url team_id, game_stats_url i3, game_stats_url i2])"
    using b3 b2 by simp
  with gs sel have "get_recent_game_stats net tr team_id 2 =
           (Inr (JArr [b3, b2]), tr @ [schedule_url team_id, game_stats_url i3, game_stats_url i2])"
    by (simp add: get_recent_game_stats_Inr)
  with gs m show ?thesis
    by blast
qed

theorem recent_game_stats_two_most_recent_witness:
  "get_recent_game_stats example_network [] ''12'' 2 =
     (Inr (JArr [example_boxscore (JStr ''403''), example_boxscore (JStr ''402'')]),
      [] @ [schedule_url ''12'', game_stats_url (JStr ''403''), game_stats_url (JStr ''402'')])
   \<and> fetch_recent_games example_network [] ''12'' =
       Inr [\<lparr>game_id = JStr ''401'', date = (2024, 1, 1, 18, 0)\<rparr>,
            \<lparr>game_id = JStr ''402'', date = (2024, 1, 8, 18, 0)\<rparr>,
            \<lparr>game_id = JStr ''403'', date = (2024, 1, 15, 21, 25)\<rparr>]
   \<and> other_status (example_event ''404'' ''2024-01-22T18:00Z'' ''STATUS_SCHEDULED'')"
proof -
  let ?d = "\<lambda>i. JObj [(''boxscore'', example_boxscore (JStr i)), (''header'', JNull)]"
  let ?e1 = "example_event ''401'' ''2024-01-01T18:00Z'' ''STATUS_FINAL''"
  let ?e2 = "example_event ''402'' ''2024-01-08T18:00Z'' ''STATUS_FINAL''"
  let ?e3 = "example_event ''403'' ''2024-01-15T21:25Z'' ''STATUS_FINAL''"
  let ?e4 = "example_event ''404'' ''2024-01-22T18:00Z'' ''STATUS_SCHEDULED''"
  have s: "schedule_url ''12'' \<noteq> game_stats_url g" for g
    by (simp add: schedule_url_def game_stats_url_def)
  have other: "other_status ?e4"
    by code_simp
  have gs: "fetch_recent_games example_network [] ''12'' =
       Inr [\<lparr>game_id = JStr ''401'', date = (2024, 1, 1, 18, 0)\<rparr>,
            \<lparr>game_id = JStr ''402'', date = (2024, 1, 8, 18, 0)\<rparr>,
            \<lparr>game_id = JStr ''403'', date = (2024, 1, 15, 21, 25)\<rparr>]"
    by code_simp
  have "get_recent_game_stats example_network [] ''12'' 2 =
     (Inr (JArr [example_boxscore (JStr ''403''), example_boxscore (JStr ''402'')]),
      [] @ [schedule_url ''12'', game_stats_url (JStr ''403''), game_stats_url (JStr ''402'')])
   \<and> (\<exists>gs. fetch_recent_games example_network [] ''12'' = Inr gs
         \<and> mset gs = {#\<lparr>game_id = JStr ''401'', date = (2024, 1, 1, 18, 0)\<rparr>,
                        \<lparr>game_id = JStr ''402'', date = (2024, 1, 8, 18, 0)\<rparr>,
                        \<lparr>game_id = JStr ''403'', date = (2024, 1, 15, 21, 25)\<rparr>#})"
  proof (rule recent_game_stats_two_most_recent
      [where resp = "ok_response example_schedule" and data = example_schedule
         and evs = "[?e1, ?e2, ?e3, ?e4]" and ?e1.0 = ?e1 and ?e2.0 = ?e2 and ?e3.0 = ?e3
         and ?e4.0 = ?e4 and ?r3.0 = "ok_response (?d ''403'')"
         and ?r2.0 = "ok_response (?d ''402'')" and ?d3.0 = "?d ''403''" and ?d2.0 = "?d ''402''"])
    show "example_network [] (schedule_url ''12'') = Reply (ok_response example_schedule)"
      by (simp add: example_network_def)
    show "field example_schedule ''events'' = Some (JArr [?e1, ?e2, ?e3, ?e4])"
      by (simp add: example_schedule_def)
    show "mset [?e1, ?e2, ?e3, ?e4] = {#?e1, ?e2, ?e3, ?e4#}"
      by simp
    show "final_event ?e1" "final_event ?e2" "final_event ?e3"
      by code_simp+
    show "entry_of ?e1 = Some \<lparr>game_id = JStr ''401'', date = (2024, 1, 1, 18, 0)\<rparr>"
      by code_simp
    show "entry_of ?e2 = Some \<lparr>game_id = JStr ''402'', date = (2024, 1, 8, 18, 0)\<rparr>"
      by code_simp
    show "entry_of ?e3 = Some \<lparr>game_id = JStr ''403'', date = (2024, 1, 15, 21, 25)\<rparr>"
      by code_simp
    show "other_status ?e4"
      by (rule other)
    show "example_network ([] @ [schedule_url ''12'']) (game_stats_url (JStr ''403''))
            = Reply (ok_response (?d ''403''))"
      using s [of "JStr ''403''"] by (simp add: example_network_def game_stats_url_def)
    show "example_network ([] @ [schedule_url ''12'', game_stats_url (JStr ''403'')])
            (game_stats_url (JStr ''402'')) = Reply (ok_response (?d ''402''))"
      using s [of "JStr ''402''"] by (simp add: example_network_def game_stats_url_def)
  qed (simp_all add: ok_response_def)
  with gs other show ?thesis
    by simp
qed

end
